theory Spec2Isabelle
  imports Complex_Main "HOL-Library.Word"
begin

section \<open>Numbers\<close>

text \<open>
  A C++ \<open>float\<close> is either a finite number or one of the three special values of
  IEEE 754. The operations of this section compute finite results exactly and keep where
  the special values come from and how they travel: a quotient with a zero divisor, a
  difference of equal infinities, a comparison with NaN. The rounding of single
  precision is added in the section on single precision, as a parameter of the same
  operations; the sign of zero is not modelled.
\<close>

datatype float = Fin real | PInf | NInf | NaN

fun fneg :: "float \<Rightarrow> float" where
  "fneg (Fin a) = Fin (- a)"
| "fneg PInf = NInf"
| "fneg NInf = PInf"
| "fneg NaN = NaN"

fun fadd :: "float \<Rightarrow> float \<Rightarrow> float" where
  "fadd (Fin a) (Fin b) = Fin (a + b)"
| "fadd (Fin a) PInf = PInf"
| "fadd (Fin a) NInf = NInf"
| "fadd PInf (Fin b) = PInf"
| "fadd PInf PInf = PInf"
| "fadd NInf (Fin b) = NInf"
| "fadd NInf NInf = NInf"
| "fadd PInf NInf = NaN"
| "fadd NInf PInf = NaN"
| "fadd NaN y = NaN"
| "fadd x NaN = NaN"

definition fsub :: "float \<Rightarrow> float \<Rightarrow> float" where
  "fsub x y = fadd x (fneg y)"

text \<open>The sign of a value, for products and quotients with an infinite operand.\<close>

fun fpos :: "float \<Rightarrow> bool" where
  "fpos (Fin a) = (0 < a)"
| "fpos PInf = True"
| "fpos NInf = False"
| "fpos NaN = False"

fun fzero :: "float \<Rightarrow> bool" where
  "fzero (Fin a) = (a = 0)"
| "fzero x = False"

fun fmul :: "float \<Rightarrow> float \<Rightarrow> float" where
  "fmul (Fin a) (Fin b) = Fin (a * b)"
| "fmul NaN y = NaN"
| "fmul x NaN = NaN"
| "fmul x y = (if fzero x \<or> fzero y then NaN
               else if fpos x = fpos y then PInf else NInf)"

fun fdiv :: "float \<Rightarrow> float \<Rightarrow> float" where
  "fdiv (Fin a) (Fin b) =
     (if b \<noteq> 0 then Fin (a / b)
      else if a = 0 then NaN
      else if 0 < a then PInf else NInf)"
| "fdiv NaN y = NaN"
| "fdiv x NaN = NaN"
| "fdiv (Fin a) y = Fin 0"
| "fdiv x (Fin b) = (if fpos x = (0 \<le> b) then PInf else NInf)"
| "fdiv x y = NaN"

fun fabs :: "float \<Rightarrow> float" where
  "fabs (Fin a) = Fin \<bar>a\<bar>"
| "fabs PInf = PInf"
| "fabs NInf = PInf"
| "fabs NaN = NaN"

fun fsqrt :: "float \<Rightarrow> float" where
  "fsqrt (Fin a) = (if a < 0 then NaN else Fin (sqrt a))"
| "fsqrt PInf = PInf"
| "fsqrt NInf = NaN"
| "fsqrt NaN = NaN"

fun ffloor :: "float \<Rightarrow> float" where
  "ffloor (Fin a) = Fin (of_int \<lfloor>a\<rfloor>)"
| "ffloor x = x"

text \<open>Comparisons: every comparison with NaN is false.\<close>

fun fless :: "float \<Rightarrow> float \<Rightarrow> bool" where
  "fless (Fin a) (Fin b) = (a < b)"
| "fless NaN y = False"
| "fless x NaN = False"
| "fless x PInf = (x \<noteq> PInf)"
| "fless NInf y = (y \<noteq> NInf)"
| "fless x y = False"

fun fge :: "float \<Rightarrow> float \<Rightarrow> bool" where
  "fge (Fin a) (Fin b) = (b \<le> a)"
| "fge NaN y = False"
| "fge x NaN = False"
| "fge PInf y = True"
| "fge x NInf = True"
| "fge x y = False"

fun is_Fin :: "float \<Rightarrow> bool" where
  "is_Fin (Fin a) = True"
| "is_Fin x = False"

text \<open>\<open>size_t\<close>, \<open>int\<close> and \<open>short\<close> operands are converted to \<open>float\<close> before
  a mixed operation.\<close>

definition of_count :: "nat \<Rightarrow> float" where
  "of_count n = Fin (real n)"

type_synonym short = "16 word"
type_synonym uint32 = "32 word"
type_synonym uint8 = "8 word"

definition of_short :: "short \<Rightarrow> float" where
  "of_short b = Fin (real_of_int (sint b))"

section \<open>Errors\<close>

text \<open>
  The exceptions of the standard library that the class throws, and one more outcome for
  the places where C++ gives the program no meaning at all: an array subscript out of
  range, a conversion of a float that does not fit the integer type.
\<close>

datatype error = LogicError | InvalidArgument | OutOfRange | Undefined

text \<open>The conversion to \<open>short\<close> drops the fraction; a value that does not fit is undefined.\<close>

fun float_to_short :: "float \<Rightarrow> error + short" where
  "float_to_short (Fin a) =
     (let i = (if 0 \<le> a then \<lfloor>a\<rfloor> else \<lceil>a\<rceil>)
      in if - 32768 \<le> i \<and> i \<le> 32767 then Inr (word_of_int i) else Inl Undefined)"
| "float_to_short x = Inl Undefined"

section \<open>Configuration\<close>

text \<open>
  Modelled from the spec: the four enumerations of the class header, which is not among
  the sources; the options are those the source switches on.
\<close>

datatype ColorDistance = LAB_CIEDE00 | RGB_EUCL
datatype GeometricDistance = NORMALS_DIFF | CONVEX_NORMALS_DIFF
datatype HapticDistance = AVERAGE_FRICTION
datatype MergingCriterion = MANUAL_LAMBDA | ADAPTIVE_LAMBDA | EQUALIZATION

section \<open>Data\<close>

text \<open>
  \<open>PointT\<close> is a coloured point, \<open>Normal\<close> a surface normal with its curvature,
  \<open>PointXYZI\<close> a friction sample: a position and the measured coefficient.
\<close>

record PointT =
  px :: float
  py :: float
  pz :: float
  pr :: uint8
  pg :: uint8
  pb :: uint8

record Normal =
  normal_x :: float
  normal_y :: float
  normal_z :: float
  curvature :: float

record PointXYZI =
  ix :: float
  iy :: float
  iz :: float
  intensity :: float

type_synonym vec3 = "float \<times> float \<times> float"
type_synonym vec4 = "float \<times> float \<times> float \<times> float"

text \<open>
  Modelled from the spec: the region record, whose header is not among the sources, with
  the fields that the source reads and writes, named as there without the final
  underscore.
\<close>

record Supervoxel =
  voxels :: "PointT list"
  normals :: "Normal list"
  centroid :: PointT
  normal :: Normal
  frictions :: "PointXYZI list"
  friction :: float
  friction_variance :: float
  mean :: vec4

text \<open>
  \<open>WeightMapT\<close> is a \<open>std::multimap\<close> from a weight to a pair of region labels and
  \<open>AdjacencyMapT\<close> a \<open>std::multimap\<close> from a label to a label: lists in iteration
  order, that is by key, entries with equal keys in the order of their insertion.
  \<open>ClusteringT\<close> is a \<open>std::map\<close> from labels to regions.
\<close>

type_synonym WeightedPairT = "float \<times> (uint32 \<times> uint32)"
type_synonym WeightMapT = "WeightedPairT list"
type_synonym AdjacencyMapT = "(uint32 \<times> uint32) list"
type_synonym ClusteringT = "uint32 \<rightharpoonup> Supervoxel"

text \<open>
  Modelled from the spec: the clustering state, whose header is not among the sources, is
  the region table and the weighted graph. Its constructor stores its two arguments,
  \<open>get_first_weight\<close> is the first entry of the graph and \<open>set_weight_map\<close> replaces the
  graph.
\<close>

record ClusteringState =
  segments :: ClusteringT
  weight_map :: WeightMapT

text \<open>
  The fields of the class. \<open>DeltasDistribT\<close>, the type of a distribution of distances,
  is taken to be a multiset of floats and \<open>bins_num\<close> a \<open>short\<close>, as the setter's
  argument is.
\<close>

record Clustering =
  delta_c_type :: ColorDistance
  delta_g_type :: GeometricDistance
  delta_h_type :: HapticDistance
  merging_type :: MergingCriterion
  lambda_c :: float
  lambda_g :: float
  bins_num :: short
  cdf_c :: "short \<rightharpoonup> float"
  cdf_g :: "short \<rightharpoonup> float"
  cdf_h :: "short \<rightharpoonup> float"
  set_initial_state :: bool
  init_initial_weights :: bool
  initial_state :: ClusteringState
  state :: ClusteringState

text \<open>
  What the class calls and this file does not define: the colour utilities with their
  two normalisation constants, the point cloud library's plane fit, normal flip and
  vector normalisation, the default constructor of a region, and the regression of the
  fitted mixture, \<open>gmr\<close>, which maps a mean colour to a predicted friction and its
  predictive variance. They are parameters of the model.
\<close>

record Ext =
  mean_color :: "Supervoxel \<Rightarrow> vec3"
  rgb2lab :: "vec3 \<Rightarrow> vec3"
  lab_ciede00 :: "vec3 \<Rightarrow> vec3 \<Rightarrow> float"
  rgb_eucl :: "vec3 \<Rightarrow> vec3 \<Rightarrow> float"
  LAB_RANGE :: float
  RGB_RANGE :: float
  computePointNormal :: "PointT list \<Rightarrow> vec4 \<times> float"
  flipNormalTowardsViewpoint :: "PointT \<Rightarrow> vec4 \<Rightarrow> vec4"
  normalize :: "vec4 \<Rightarrow> vec4"
  centroid_color :: "PointT list \<Rightarrow> uint8 \<times> uint8 \<times> uint8"
  new_Supervoxel :: Supervoxel
  gmr :: "vec3 \<Rightarrow> float \<times> float"

text \<open>
  A member function that changes the object returns the new object, or the exception
  it threw together with the object as the exception left it.
\<close>

type_synonym outcome = "(error \<times> Clustering) + Clustering"

definition ebind :: "'e + 'a \<Rightarrow> ('a \<Rightarrow> 'e + 'b) \<Rightarrow> 'e + 'b" where
  "ebind m f = (case m of Inl e \<Rightarrow> Inl e | Inr a \<Rightarrow> f a)"

section \<open>Setters\<close>

definition set_merging :: "MergingCriterion \<Rightarrow> Clustering \<Rightarrow> Clustering" where
  "set_merging m s =
     s\<lparr>merging_type := m, lambda_c := Fin 0.5, bins_num := 500,
       init_initial_weights := False\<rparr>"

definition set_lambda :: "float \<times> float \<Rightarrow> Clustering \<Rightarrow> outcome" where
  "set_lambda l s =
     (if merging_type s \<noteq> MANUAL_LAMBDA then Inl (LogicError, s)
      else if fless (fst l) (Fin 0) \<or> fless (Fin 1) (fst l)
            \<or> fless (snd l) (Fin 0) \<or> fless (Fin 1) (snd l)
            \<or> fless (Fin 1) (fadd (fst l) (snd l))
      then Inl (InvalidArgument, s)
      else Inr (s\<lparr>lambda_c := fst l, lambda_g := snd l, init_initial_weights := False\<rparr>))"

definition set_bins_num :: "short \<Rightarrow> Clustering \<Rightarrow> outcome" where
  "set_bins_num b s =
     (if merging_type s \<noteq> EQUALIZATION then Inl (LogicError, s)
      else if b <s 0 then Inl (InvalidArgument, s)
      else Inr (s\<lparr>bins_num := b, init_initial_weights := False\<rparr>))"

section \<open>Distance kernels\<close>

definition getVector3fMap :: "PointT \<Rightarrow> vec3" where
  "getVector3fMap p = (px p, py p, pz p)"

definition getNormalVector3fMap :: "Normal \<Rightarrow> vec3" where
  "getNormalVector3fMap n = (normal_x n, normal_y n, normal_z n)"

fun vsub :: "vec3 \<Rightarrow> vec3 \<Rightarrow> vec3" where
  "vsub (a1, a2, a3) (b1, b2, b3) = (fsub a1 b1, fsub a2 b2, fsub a3 b3)"

fun dot :: "vec3 \<Rightarrow> vec3 \<Rightarrow> float" where
  "dot (a1, a2, a3) (b1, b2, b3) = fadd (fadd (fmul a1 b1) (fmul a2 b2)) (fmul a3 b3)"

fun cross :: "vec3 \<Rightarrow> vec3 \<Rightarrow> vec3" where
  "cross (a1, a2, a3) (b1, b2, b3) =
     (fsub (fmul a2 b3) (fmul a3 b2),
      fsub (fmul a3 b1) (fmul a1 b3),
      fsub (fmul a1 b2) (fmul a2 b1))"

definition norm3 :: "vec3 \<Rightarrow> float" where
  "norm3 v = fsqrt (dot v v)"

fun vdivs :: "vec3 \<Rightarrow> float \<Rightarrow> vec3" where
  "vdivs (a1, a2, a3) k = (fdiv a1 k, fdiv a2 k, fdiv a3 k)"

definition is_convex :: "Normal \<Rightarrow> PointT \<Rightarrow> Normal \<Rightarrow> PointT \<Rightarrow> bool" where
  "is_convex norm1 centroid1 norm2 centroid2 =
     (let N1 = getNormalVector3fMap norm1;
          C1 = getVector3fMap centroid1;
          N2 = getNormalVector3fMap norm2;
          C2 = getVector3fMap centroid2;
          C = vsub C1 C2;
          C = vdivs C (norm3 C);
          cos1 = dot N1 C;
          cos2 = dot N2 C
      in fge cos1 cos2)"

definition normals_diff :: "Normal \<Rightarrow> PointT \<Rightarrow> Normal \<Rightarrow> PointT \<Rightarrow> float" where
  "normals_diff norm1 centroid1 norm2 centroid2 =
     (let N1 = getNormalVector3fMap norm1;
          C1 = getVector3fMap centroid1;
          N2 = getNormalVector3fMap norm2;
          C2 = getVector3fMap centroid2;
          C = vsub C1 C2;
          C = vdivs C (norm3 C);
          N1xN2 = norm3 (cross N1 N2);
          N1_C = fabs (dot N1 C);
          N2_C = fabs (dot N2 C)
      in fdiv (fadd (fadd N1xN2 N1_C) N2_C) (Fin 3))"

definition delta_c_of :: "Ext \<Rightarrow> Clustering \<Rightarrow> Supervoxel \<Rightarrow> Supervoxel \<Rightarrow> float" where
  "delta_c_of ext s supvox1 supvox2 =
     (let rgb1 = mean_color ext supvox1;
          rgb2 = mean_color ext supvox2
      in case delta_c_type s of
           LAB_CIEDE00 \<Rightarrow>
             fdiv (lab_ciede00 ext (rgb2lab ext rgb1) (rgb2lab ext rgb2)) (LAB_RANGE ext)
         | RGB_EUCL \<Rightarrow> fdiv (rgb_eucl ext rgb1 rgb2) (RGB_RANGE ext))"

definition delta_g_of :: "Clustering \<Rightarrow> Supervoxel \<Rightarrow> Supervoxel \<Rightarrow> float" where
  "delta_g_of s supvox1 supvox2 =
     (let n1 = normal supvox1;
          n2 = normal supvox2;
          c1 = centroid supvox1;
          c2 = centroid supvox2
      in case delta_g_type s of
           NORMALS_DIFF \<Rightarrow> normals_diff n1 c1 n2 c2
         | CONVEX_NORMALS_DIFF \<Rightarrow>
             (let delta_g = normals_diff n1 c1 n2 c2
              in if is_convex n1 c1 n2 c2 then fmul delta_g (Fin 0.5) else delta_g))"

definition delta_h_of :: "Clustering \<Rightarrow> Supervoxel \<Rightarrow> Supervoxel \<Rightarrow> float" where
  "delta_h_of s supvox1 supvox2 =
     (let f1 = friction supvox1;
          f2 = friction supvox2
      in case delta_h_type s of AVERAGE_FRICTION \<Rightarrow> fabs (fsub f1 f2))"

definition delta_c_g_h :: "Ext \<Rightarrow> Clustering \<Rightarrow> Supervoxel \<Rightarrow> Supervoxel \<Rightarrow> vec3" where
  "delta_c_g_h ext s supvox1 supvox2 =
     (delta_c_of ext s supvox1 supvox2, delta_g_of s supvox1 supvox2,
      delta_h_of s supvox1 supvox2)"

section \<open>Unification of the three distances\<close>

definition bin_of :: "Clustering \<Rightarrow> float \<Rightarrow> error + short" where
  "bin_of s d =
     ebind (float_to_short (ffloor (fmul d (of_short (bins_num s)))))
       (\<lambda>bin. Inr (if bin = bins_num s then bin - 1 else bin))"

definition cdf_at :: "(short \<rightharpoonup> float) \<Rightarrow> short \<Rightarrow> error + float" where
  "cdf_at cdf bin = (case cdf bin of None \<Rightarrow> Inl OutOfRange | Some v \<Rightarrow> Inr v)"

definition t_c :: "Clustering \<Rightarrow> float \<Rightarrow> error + float" where
  "t_c s delta_c =
     (case merging_type s of
        MANUAL_LAMBDA \<Rightarrow> Inr (fmul (lambda_c s) delta_c)
      | ADAPTIVE_LAMBDA \<Rightarrow> Inr (fmul (lambda_c s) delta_c)
      | EQUALIZATION \<Rightarrow>
          ebind (bin_of s delta_c) (\<lambda>bin.
          ebind (cdf_at (cdf_c s) bin) (\<lambda>v. Inr (fdiv v (Fin 3)))))"

definition t_g :: "Clustering \<Rightarrow> float \<Rightarrow> error + float" where
  "t_g s delta_g =
     (case merging_type s of
        MANUAL_LAMBDA \<Rightarrow> Inr (fmul (lambda_g s) delta_g)
      | ADAPTIVE_LAMBDA \<Rightarrow> Inr (fmul (lambda_g s) delta_g)
      | EQUALIZATION \<Rightarrow>
          ebind (bin_of s delta_g) (\<lambda>bin.
          ebind (cdf_at (cdf_g s) bin) (\<lambda>v. Inr (fdiv v (Fin 3)))))"

definition t_h :: "Clustering \<Rightarrow> float \<Rightarrow> error + float" where
  "t_h s delta_h =
     (case merging_type s of
        MANUAL_LAMBDA \<Rightarrow> Inr (fmul (fsub (fsub (Fin 1) (lambda_c s)) (lambda_g s)) delta_h)
      | ADAPTIVE_LAMBDA \<Rightarrow> Inr (fmul (fsub (fsub (Fin 1) (lambda_c s)) (lambda_g s)) delta_h)
      | EQUALIZATION \<Rightarrow>
          ebind (bin_of s delta_h) (\<lambda>bin.
          ebind (cdf_at (cdf_h s) bin) (\<lambda>v. Inr (fdiv v (Fin 3)))))"

definition unify :: "Clustering \<Rightarrow> vec3 \<Rightarrow> error + float" where
  "unify s deltas =
     (case deltas of (d0, d1, d2) \<Rightarrow>
        ebind (t_c s d0) (\<lambda>a.
        ebind (t_g s d1) (\<lambda>b.
        ebind (t_h s d2) (\<lambda>c. Inr (fadd (fadd a b) c)))))"

definition delta :: "Ext \<Rightarrow> Clustering \<Rightarrow> Supervoxel \<Rightarrow> Supervoxel \<Rightarrow> error + float" where
  "delta ext s supvox1 supvox2 = unify s (delta_c_g_h ext s supvox1 supvox2)"

section \<open>The weighted graph\<close>

text \<open>
  Insertion into a multimap: before the first entry whose key is greater, after every
  other one, so that entries with equal keys keep the order of their insertion. A key
  that is NaN is greater than none and less than none: it is inserted last, and an
  entry inserted later is compared with it as with any other. (The library searches
  its tree with the same comparison. The list is the order of the tree whenever no key
  is NaN, and for the graphs of at most two edges of the examples; with a NaN key among
  three entries or more the order of the library depends on the shape of its tree.)
\<close>

fun wm_insert :: "WeightedPairT \<Rightarrow> WeightMapT \<Rightarrow> WeightMapT" where
  "wm_insert e [] = [e]"
| "wm_insert e (x # xs) =
     (if fless (fst e) (fst x) then e # x # xs else x # wm_insert e xs)"

definition contains :: "WeightMapT \<Rightarrow> uint32 \<Rightarrow> uint32 \<Rightarrow> bool" where
  "contains w i1 i2 = list_ex (\<lambda>e. fst (snd e) = i1 \<and> snd (snd e) = i2) w"

definition adj2weight :: "AdjacencyMapT \<Rightarrow> WeightMapT" where
  "adj2weight adj_map = foldl (\<lambda>w_map e. wm_insert (Fin (- 1), e) w_map) [] adj_map"

definition clear_adjacency :: "AdjacencyMapT \<Rightarrow> AdjacencyMapT" where
  "clear_adjacency adjacency = filter (\<lambda>e. \<not> (fst e > snd e)) adjacency"

definition set_initialstate :: "ClusteringT \<Rightarrow> AdjacencyMapT \<Rightarrow> Clustering \<Rightarrow> Clustering" where
  "set_initialstate segm adj s =
     (let adj = clear_adjacency adj;
          init_state = \<lparr>segments = segm, weight_map = adj2weight adj\<rparr>
      in s\<lparr>initial_state := init_state, state := init_state,
           set_initial_state := True, init_initial_weights := False\<rparr>)"

definition segments_at :: "ClusteringT \<Rightarrow> uint32 \<Rightarrow> error + Supervoxel" where
  "segments_at segm l = (case segm l of None \<Rightarrow> Inl OutOfRange | Some sv \<Rightarrow> Inr sv)"

section \<open>Merging two regions\<close>

definition fsum :: "float list \<Rightarrow> float" where
  "fsum xs = foldl fadd (Fin 0) xs"

text \<open>
  The library's centroid of a cloud: the mean of the positions; an empty cloud leaves the
  default point.
\<close>

definition computeCentroid :: "Ext \<Rightarrow> PointT list \<Rightarrow> PointT" where
  "computeCentroid ext cloud =
     (if cloud = [] then \<lparr>px = Fin 0, py = Fin 0, pz = Fin 0, pr = 0, pg = 0, pb = 0\<rparr>
      else let n = of_count (length cloud); col = centroid_color ext cloud
           in \<lparr>px = fdiv (fsum (map px cloud)) n,
               py = fdiv (fsum (map py cloud)) n,
               pz = fdiv (fsum (map pz cloud)) n,
               pr = fst col, pg = fst (snd col), pb = snd (snd col)\<rparr>)"

text \<open>
  The friction of the new region. (In its second branch the source also computes the
  three distances of the two regions, only to print them.)
\<close>

definition merged_friction :: "Supervoxel \<Rightarrow> Supervoxel \<Rightarrow> float" where
  "merged_friction sup1 sup2 =
     (if length (frictions sup1 @ frictions sup2) \<noteq> 0
      then fdiv (fadd (fmul (of_count (length (frictions sup1))) (friction sup1))
                      (fmul (of_count (length (frictions sup2))) (friction sup2)))
                (of_count (length (frictions sup1 @ frictions sup2)))
      else fdiv (fadd (friction sup1) (friction sup2)) (Fin 2))"

definition merged_normal :: "Ext \<Rightarrow> PointT list \<Rightarrow> PointT \<Rightarrow> Normal" where
  "merged_normal ext cloud centr =
     (let new_norm = fst (computePointNormal ext cloud);
          new_curv = snd (computePointNormal ext cloud);
          new_norm = flipNormalTowardsViewpoint ext centr new_norm;
          new_norm = (case new_norm of (n0, n1, n2, n3) \<Rightarrow> (n0, n1, n2, Fin 0));
          new_norm = normalize ext new_norm
      in case new_norm of (n0, n1, n2, n3) \<Rightarrow>
           \<lparr>normal_x = n0, normal_y = n1, normal_z = n2, curvature = new_curv\<rparr>)"

definition merged_region :: "Ext \<Rightarrow> Supervoxel \<Rightarrow> Supervoxel \<Rightarrow> Supervoxel" where
  "merged_region ext sup1 sup2 =
     (let sup_new = new_Supervoxel ext;
          sup_new = sup_new\<lparr>voxels := voxels sup1 @ voxels sup2\<rparr>;
          sup_new = sup_new\<lparr>normals := normals sup1 @ normals sup2\<rparr>;
          new_centr = computeCentroid ext (voxels sup_new);
          sup_new = sup_new\<lparr>centroid := new_centr\<rparr>;
          sup_new = sup_new\<lparr>normal := merged_normal ext (voxels sup_new) (centroid sup_new)\<rparr>;
          sup_new = sup_new\<lparr>frictions := frictions sup1 @ frictions sup2\<rparr>
      in sup_new\<lparr>friction := merged_friction sup1 sup2\<rparr>)"

definition delta_at :: "Ext \<Rightarrow> Clustering \<Rightarrow> uint32 \<Rightarrow> uint32 \<Rightarrow> error + float" where
  "delta_at ext s i1 i2 =
     ebind (segments_at (segments (state s)) i1) (\<lambda>sv1.
     ebind (segments_at (segments (state s)) i2) (\<lambda>sv2. delta ext s sv1 sv2))"

definition add_edge :: "Ext \<Rightarrow> Clustering \<Rightarrow> uint32 \<times> uint32 \<Rightarrow> WeightMapT \<Rightarrow> error + WeightMapT" where
  "add_edge ext s curr_ids new_map =
     (if \<not> contains new_map (fst curr_ids) (snd curr_ids)
      then ebind (delta_at ext s (fst curr_ids) (snd curr_ids))
             (\<lambda>w. Inr (wm_insert (w, curr_ids) new_map))
      else Inr new_map)"

text \<open>The loop of \<open>merge\<close> over the edges after the first one.\<close>

fun rewrite_edges ::
  "Ext \<Rightarrow> Clustering \<Rightarrow> uint32 \<times> uint32 \<Rightarrow> WeightMapT \<Rightarrow> WeightMapT \<Rightarrow> error + WeightMapT" where
  "rewrite_edges ext s supvox_ids [] new_map = Inr new_map"
| "rewrite_edges ext s supvox_ids (it # rest) new_map =
     (let curr_ids = snd it in
      if fst curr_ids = fst supvox_ids \<or> snd curr_ids = fst supvox_ids
      then ebind (add_edge ext s curr_ids new_map) (rewrite_edges ext s supvox_ids rest)
      else if fst curr_ids = snd supvox_ids
      then ebind (add_edge ext s (fst supvox_ids, snd curr_ids) new_map)
             (rewrite_edges ext s supvox_ids rest)
      else if snd curr_ids = snd supvox_ids
      then ebind (add_edge ext s
                    (if fst curr_ids < fst supvox_ids then (fst curr_ids, fst supvox_ids)
                     else (fst supvox_ids, fst curr_ids)) new_map)
             (rewrite_edges ext s supvox_ids rest)
      else rewrite_edges ext s supvox_ids rest (wm_insert it new_map))"

definition merge :: "Ext \<Rightarrow> uint32 \<times> uint32 \<Rightarrow> Clustering \<Rightarrow> outcome" where
  "merge ext supvox_ids s =
     (case segments (state s) (fst supvox_ids) of
        None \<Rightarrow> Inl (OutOfRange, s)
      | Some sup1 \<Rightarrow>
     (case segments (state s) (snd supvox_ids) of
        None \<Rightarrow> Inl (OutOfRange, s)
      | Some sup2 \<Rightarrow>
     (let sup_new = merged_region ext sup1 sup2;
          segm = (segments (state s))(fst supvox_ids := None);
          segm = segm(snd supvox_ids := None);
          segm = (if segm (fst supvox_ids) = None then segm(fst supvox_ids \<mapsto> sup_new) else segm);
          s1 = s\<lparr>state := (state s)\<lparr>segments := segm\<rparr>\<rparr>
      in case weight_map (state s1) of
           [] \<Rightarrow> Inl (Undefined, s1)
         | first # rest \<Rightarrow>
             (case rewrite_edges ext s1 supvox_ids rest [] of
                Inl e \<Rightarrow> Inl (e, s1)
              | Inr new_map \<Rightarrow> Inr (s1\<lparr>state := (state s1)\<lparr>weight_map := new_map\<rparr>\<rparr>)))))"

section \<open>Imputing the friction of untouched regions\<close>



section \<open>Initial weights\<close>

text \<open>Insertion into a distribution of distances, a multiset of floats kept in order.\<close>

fun ms_insert :: "float \<Rightarrow> float list \<Rightarrow> float list" where
  "ms_insert d [] = [d]"
| "ms_insert d (x # xs) = (if fless d x then d # x # xs else x # ms_insert d xs)"

definition deltas_mean :: "float list \<Rightarrow> float" where
  "deltas_mean deltas =
     snd (foldl (\<lambda>acc d. let count = fadd (fst acc) (Fin 1)
                          in (count, fadd (snd acc) (fmul (fdiv (Fin 1) count) (fsub d (snd acc)))))
            (Fin 0, Fin 0) deltas)"

fun fill_bins :: "Clustering \<Rightarrow> float list \<Rightarrow> int list \<Rightarrow> error + int list" where
  "fill_bins s [] bins = Inr bins"
| "fill_bins s (d # ds) bins =
     ebind (bin_of s d) (\<lambda>bin.
       if 0 \<le> sint bin \<and> nat (sint bin) < length bins
       then fill_bins s ds (bins[nat (sint bin) := bins ! nat (sint bin) + 1])
       else Inl Undefined)"

definition compute_cdf :: "Clustering \<Rightarrow> float list \<Rightarrow> error + (short \<rightharpoonup> float)" where
  "compute_cdf s distr =
     (if bins_num s <s 0 then Inl Undefined
      else ebind (fill_bins s distr (replicate (nat (sint (bins_num s))) 0)) (\<lambda>bins.
        Inr (\<lambda>i. if 0 \<le> sint i \<and> sint i < sint (bins_num s)
                 then Some (fdiv (fsum (map (\<lambda>b. Fin (real_of_int b)) (take (nat (sint i) + 1) bins)))
                                 (of_count (length distr)))
                 else None)))"

definition init_merging_parameters ::
  "float list \<Rightarrow> float list \<Rightarrow> float list \<Rightarrow> Clustering \<Rightarrow> error + Clustering" where
  "init_merging_parameters deltas_c deltas_g deltas_h s =
     (case merging_type s of
        MANUAL_LAMBDA \<Rightarrow> Inr s
      | ADAPTIVE_LAMBDA \<Rightarrow>
          (let mean_c = deltas_mean deltas_c;
               mean_g = deltas_mean deltas_g;
               mean_h = deltas_mean deltas_h
           in Inr (s\<lparr>lambda_c := fdiv mean_h (fadd mean_c mean_h), lambda_g := Fin 0\<rparr>))
      | EQUALIZATION \<Rightarrow>
          ebind (compute_cdf s deltas_c) (\<lambda>c.
          ebind (compute_cdf s deltas_g) (\<lambda>g.
          ebind (compute_cdf s deltas_h) (\<lambda>h.
            Inr (s\<lparr>cdf_c := c, cdf_g := g, cdf_h := h\<rparr>)))))"

text \<open>
  The first loop of \<open>init_weights\<close>: the three distances of every edge of the initial
  graph, in the order of the graph. The source keys them by the text \<open>u-v\<close>, which
  determines the pair.
\<close>

fun collect_deltas ::
  "Ext \<Rightarrow> Clustering \<Rightarrow> WeightMapT \<Rightarrow> error + ((uint32 \<times> uint32) \<times> vec3) list" where
  "collect_deltas ext s [] = Inr []"
| "collect_deltas ext s (it # rest) =
     ebind (segments_at (segments (initial_state s)) (fst (snd it))) (\<lambda>sup1.
     ebind (segments_at (segments (initial_state s)) (snd (snd it))) (\<lambda>sup2.
     ebind (collect_deltas ext s rest) (\<lambda>ds.
       Inr ((snd it, delta_c_g_h ext s sup1 sup2) # ds))))"

text \<open>The second loop: every edge weighted with the unified distance.\<close>

fun reweight ::
  "Clustering \<Rightarrow> (uint32 \<times> uint32 \<rightharpoonup> vec3) \<Rightarrow> WeightMapT \<Rightarrow> WeightMapT \<Rightarrow> error + WeightMapT" where
  "reweight s temp_deltas [] w_new = Inr w_new"
| "reweight s temp_deltas (it # rest) w_new =
     (case temp_deltas (snd it) of
        None \<Rightarrow> Inl OutOfRange
      | Some deltas \<Rightarrow>
          ebind (unify s deltas) (\<lambda>d. reweight s temp_deltas rest (wm_insert (d, snd it) w_new)))"

definition init_weights :: "Ext \<Rightarrow> Clustering \<Rightarrow> outcome" where
  "init_weights ext s =
     (case collect_deltas ext s (weight_map (initial_state s)) of
        Inl e \<Rightarrow> Inl (e, s)
      | Inr ds \<Rightarrow>
     (case init_merging_parameters
             (foldl (\<lambda>acc d. ms_insert d acc) [] (map (\<lambda>e. fst (snd e)) ds))
             (foldl (\<lambda>acc d. ms_insert d acc) [] (map (\<lambda>e. fst (snd (snd e))) ds))
             (foldl (\<lambda>acc d. ms_insert d acc) [] (map (\<lambda>e. snd (snd (snd e))) ds)) s of
        Inl e \<Rightarrow> Inl (e, s)
      | Inr s1 \<Rightarrow>
     (case reweight s1 (map_of ds) (weight_map (initial_state s1)) [] of
        Inl e \<Rightarrow> Inl (e, s1)
      | Inr w_new \<Rightarrow>
          Inr (s1\<lparr>initial_state := (initial_state s1)\<lparr>weight_map := w_new\<rparr>,
                  init_initial_weights := True\<rparr>))))"

section \<open>The clustering loop\<close>

function cluster_loop :: "Ext \<Rightarrow> float \<Rightarrow> Clustering \<Rightarrow> outcome" where
  "cluster_loop ext threshold s =
     (case weight_map (state s) of
        [] \<Rightarrow> Inr s
      | next # rest \<Rightarrow>
          if fless (fst next) threshold
          then (case merge ext (snd next) s of
                  Inl e \<Rightarrow> Inl e
                | Inr s' \<Rightarrow> cluster_loop ext threshold s')
          else Inr s)"
  by pat_completeness auto

termination cluster_loop
proof (relation "measure (\<lambda>(ext, threshold, s). length (weight_map (state s)))")
  show "wf (measure (\<lambda>(ext, threshold, s). length (weight_map (state s))))"
    by simp
next
  fix ext :: Ext and threshold :: float and s :: Clustering
    and nxt :: WeightedPairT and rest :: WeightMapT and s' :: Clustering
  assume wm: "weight_map (state s) = nxt # rest"
    and mg: "merge ext (snd nxt) s = Inr s'"
  have ins: "length (wm_insert e w) = Suc (length w)" for e w
    by (induction w) simp_all
  have add: "add_edge ext t ids m = Inr m' \<Longrightarrow> length m' \<le> Suc (length m)" for t ids m m'
    by (auto simp: add_edge_def ebind_def ins split: if_splits sum.splits)
  have rw: "rewrite_edges ext t ids es m = Inr m' \<Longrightarrow> length m' \<le> length es + length m"
    for t ids es m m'
  proof (induction es arbitrary: m)
    case Nil
    then show ?case by simp
  next
    case (Cons e es)
    have step: "length m' \<le> Suc (length es + length m)"
      if "ebind (add_edge ext t i m) (rewrite_edges ext t ids es) = Inr m'" for i
    proof -
      from that obtain m1 where a: "add_edge ext t i m = Inr m1"
        and r: "rewrite_edges ext t ids es m1 = Inr m'"
        by (cases "add_edge ext t i m") (simp_all add: ebind_def)
      from Cons.IH[OF r] add[OF a] show ?thesis by simp
    qed
    have other: "length m' \<le> Suc (length es + length m)"
      if "rewrite_edges ext t ids es (wm_insert e m) = Inr m'"
      using Cons.IH[OF that] by (simp add: ins)
    from Cons.prems step other show ?case
      by (simp add: Let_def split: if_splits)
  qed
  from mg wm obtain s1 new_map where r: "rewrite_edges ext s1 (snd nxt) rest [] = Inr new_map"
    and s': "weight_map (state s') = new_map"
    by (auto simp: merge_def Let_def split: option.splits sum.splits)
  from rw[OF r] s' have "length (weight_map (state s')) \<le> length rest" by simp
  with wm show "((ext, threshold, s'), (ext, threshold, s))
      \<in> measure (\<lambda>(ext, threshold, s). length (weight_map (state s)))"
    by simp
qed

text \<open>\<open>cluster(start, threshold)\<close> and the public \<open>cluster(threshold)\<close>.\<close>

definition cluster_from :: "Ext \<Rightarrow> ClusteringState \<Rightarrow> float \<Rightarrow> Clustering \<Rightarrow> outcome" where
  "cluster_from ext start threshold s = cluster_loop ext threshold (s\<lparr>state := start\<rparr>)"

definition cluster :: "Ext \<Rightarrow> float \<Rightarrow> Clustering \<Rightarrow> outcome" where
  "cluster ext threshold s =
     (if \<not> set_initial_state s then Inl (LogicError, s)
      else case (if \<not> init_initial_weights s then init_weights ext s else Inr s) of
             Inl e \<Rightarrow> Inl e
           | Inr s1 \<Rightarrow> cluster_from ext (initial_state s1) threshold s1)"

section \<open>Construction\<close>

text \<open>
  The object after \<open>Clustering(c, g, h, m)\<close>. No constructor gives \<open>lambda_g\<close> a value:
  it is whatever the memory held, the argument \<open>lg\<close>.
\<close>

definition Clustering_new ::
  "ColorDistance \<Rightarrow> GeometricDistance \<Rightarrow> HapticDistance \<Rightarrow> MergingCriterion \<Rightarrow> float \<Rightarrow> Clustering" where
  "Clustering_new c g h m lg =
     \<lparr>delta_c_type = c, delta_g_type = g, delta_h_type = h, merging_type = m,
      lambda_c = Fin 0.5, lambda_g = lg, bins_num = 500,
      cdf_c = Map.empty, cdf_g = Map.empty, cdf_h = Map.empty,
      set_initial_state = False, init_initial_weights = False,
      initial_state = \<lparr>segments = Map.empty, weight_map = []\<rparr>,
      state = \<lparr>segments = Map.empty, weight_map = []\<rparr>\<rparr>"

section \<open>Single precision\<close>

text \<open>
  The operations above compute with the real numbers. The source computes with \<open>float\<close>:
  every operation gives the value of the format that is nearest to the real result, the
  one with the even significand when two are as near. \<open>binary32\<close> is that rounding: 24
  bits of significand and exponents from \<open>-126\<close> to 127; below \<open>2 ^ -126\<close> the spacing
  of the values stays \<open>2 ^ -149\<close>, and a result that rounds to \<open>2 ^ 128\<close> or more is
  infinite.
\<close>

definition round_even :: "real \<Rightarrow> int" where
  "round_even y =
     (let f = \<lfloor>y\<rfloor>
      in if y - of_int f < 1 / 2 then f
         else if 1 / 2 < y - of_int f then f + 1
         else if even f then f else f + 1)"

definition pow2 :: "int \<Rightarrow> real" where
  "pow2 k = (if 0 \<le> k then 2 ^ nat k else 1 / 2 ^ nat (- k))"

definition binary32 :: "real \<Rightarrow> float" where
  "binary32 x =
     (if x = 0 then Fin 0
      else let e = max \<lfloor>log 2 \<bar>x\<bar>\<rfloor> (- 126);
               q = pow2 (e - 23);
               y = q * of_int (round_even (\<bar>x\<bar> / q))
           in if pow2 128 \<le> y then (if 0 < x then PInf else NInf)
              else Fin (sgn x * y))"

text \<open>
  The operations with a rounding \<open>r\<close> of the result of two finite operands; the special
  values are propagated as above. With \<open>r = Fin\<close> they are the operations above, with
  \<open>r = binary32\<close> those of the source.
\<close>

fun radd :: "(real \<Rightarrow> float) \<Rightarrow> float \<Rightarrow> float \<Rightarrow> float" where
  "radd r (Fin a) (Fin b) = r (a + b)"
| "radd r x y = fadd x y"

definition rsub :: "(real \<Rightarrow> float) \<Rightarrow> float \<Rightarrow> float \<Rightarrow> float" where
  "rsub r x y = radd r x (fneg y)"

fun rmul :: "(real \<Rightarrow> float) \<Rightarrow> float \<Rightarrow> float \<Rightarrow> float" where
  "rmul r (Fin a) (Fin b) = r (a * b)"
| "rmul r x y = fmul x y"

fun rdiv :: "(real \<Rightarrow> float) \<Rightarrow> float \<Rightarrow> float \<Rightarrow> float" where
  "rdiv r (Fin a) (Fin b) = (if b \<noteq> 0 then r (a / b) else fdiv (Fin a) (Fin b))"
| "rdiv r x y = fdiv x y"

fun rsqrt :: "(real \<Rightarrow> float) \<Rightarrow> float \<Rightarrow> float" where
  "rsqrt r (Fin a) = (if a < 0 then NaN else r (sqrt a))"
| "rsqrt r x = fsqrt x"

fun vsub_r :: "(real \<Rightarrow> float) \<Rightarrow> vec3 \<Rightarrow> vec3 \<Rightarrow> vec3" where
  "vsub_r r (a1, a2, a3) (b1, b2, b3) = (rsub r a1 b1, rsub r a2 b2, rsub r a3 b3)"

fun dot_r :: "(real \<Rightarrow> float) \<Rightarrow> vec3 \<Rightarrow> vec3 \<Rightarrow> float" where
  "dot_r r (a1, a2, a3) (b1, b2, b3) =
     radd r (radd r (rmul r a1 b1) (rmul r a2 b2)) (rmul r a3 b3)"

fun cross_r :: "(real \<Rightarrow> float) \<Rightarrow> vec3 \<Rightarrow> vec3 \<Rightarrow> vec3" where
  "cross_r r (a1, a2, a3) (b1, b2, b3) =
     (rsub r (rmul r a2 b3) (rmul r a3 b2),
      rsub r (rmul r a3 b1) (rmul r a1 b3),
      rsub r (rmul r a1 b2) (rmul r a2 b1))"

definition norm3_r :: "(real \<Rightarrow> float) \<Rightarrow> vec3 \<Rightarrow> float" where
  "norm3_r r v = rsqrt r (dot_r r v v)"

fun vdivs_r :: "(real \<Rightarrow> float) \<Rightarrow> vec3 \<Rightarrow> float \<Rightarrow> vec3" where
  "vdivs_r r (a1, a2, a3) k = (rdiv r a1 k, rdiv r a2 k, rdiv r a3 k)"

text \<open>The two kernels and the three distances, statement by statement as above.\<close>

definition is_convex_r ::
  "(real \<Rightarrow> float) \<Rightarrow> Normal \<Rightarrow> PointT \<Rightarrow> Normal \<Rightarrow> PointT \<Rightarrow> bool" where
  "is_convex_r r norm1 centroid1 norm2 centroid2 =
     (let N1 = getNormalVector3fMap norm1;
          C1 = getVector3fMap centroid1;
          N2 = getNormalVector3fMap norm2;
          C2 = getVector3fMap centroid2;
          C = vsub_r r C1 C2;
          C = vdivs_r r C (norm3_r r C);
          cos1 = dot_r r N1 C;
          cos2 = dot_r r N2 C
      in fge cos1 cos2)"

definition normals_diff_r ::
  "(real \<Rightarrow> float) \<Rightarrow> Normal \<Rightarrow> PointT \<Rightarrow> Normal \<Rightarrow> PointT \<Rightarrow> float" where
  "normals_diff_r r norm1 centroid1 norm2 centroid2 =
     (let N1 = getNormalVector3fMap norm1;
          C1 = getVector3fMap centroid1;
          N2 = getNormalVector3fMap norm2;
          C2 = getVector3fMap centroid2;
          C = vsub_r r C1 C2;
          C = vdivs_r r C (norm3_r r C);
          N1xN2 = norm3_r r (cross_r r N1 N2);
          N1_C = fabs (dot_r r N1 C);
          N2_C = fabs (dot_r r N2 C)
      in rdiv r (radd r (radd r N1xN2 N1_C) N2_C) (Fin 3))"

definition delta_c_r ::
  "Ext \<Rightarrow> (real \<Rightarrow> float) \<Rightarrow> Clustering \<Rightarrow> Supervoxel \<Rightarrow> Supervoxel \<Rightarrow> float" where
  "delta_c_r ext r s supvox1 supvox2 =
     (let rgb1 = mean_color ext supvox1;
          rgb2 = mean_color ext supvox2
      in case delta_c_type s of
           LAB_CIEDE00 \<Rightarrow>
             rdiv r (lab_ciede00 ext (rgb2lab ext rgb1) (rgb2lab ext rgb2)) (LAB_RANGE ext)
         | RGB_EUCL \<Rightarrow> rdiv r (rgb_eucl ext rgb1 rgb2) (RGB_RANGE ext))"

definition delta_g_r ::
  "(real \<Rightarrow> float) \<Rightarrow> Clustering \<Rightarrow> Supervoxel \<Rightarrow> Supervoxel \<Rightarrow> float" where
  "delta_g_r r s supvox1 supvox2 =
     (let n1 = normal supvox1;
          n2 = normal supvox2;
          c1 = centroid supvox1;
          c2 = centroid supvox2
      in case delta_g_type s of
           NORMALS_DIFF \<Rightarrow> normals_diff_r r n1 c1 n2 c2
         | CONVEX_NORMALS_DIFF \<Rightarrow>
             (let delta_g = normals_diff_r r n1 c1 n2 c2
              in if is_convex_r r n1 c1 n2 c2 then rmul r delta_g (Fin 0.5) else delta_g))"

definition delta_h_r ::
  "(real \<Rightarrow> float) \<Rightarrow> Clustering \<Rightarrow> Supervoxel \<Rightarrow> Supervoxel \<Rightarrow> float" where
  "delta_h_r r s supvox1 supvox2 =
     (let f1 = friction supvox1;
          f2 = friction supvox2
      in case delta_h_type s of AVERAGE_FRICTION \<Rightarrow> fabs (rsub r f1 f2))"

definition delta_c_g_h_r ::
  "Ext \<Rightarrow> (real \<Rightarrow> float) \<Rightarrow> Clustering \<Rightarrow> Supervoxel \<Rightarrow> Supervoxel \<Rightarrow> vec3" where
  "delta_c_g_h_r ext r s supvox1 supvox2 =
     (delta_c_r ext r s supvox1 supvox2, delta_g_r r s supvox1 supvox2,
      delta_h_r r s supvox1 supvox2)"

text \<open>The library's centroid of a cloud, with the rounding.\<close>

definition fsum_r :: "(real \<Rightarrow> float) \<Rightarrow> float list \<Rightarrow> float" where
  "fsum_r r xs = foldl (radd r) (Fin 0) xs"

definition computeCentroid_r :: "Ext \<Rightarrow> (real \<Rightarrow> float) \<Rightarrow> PointT list \<Rightarrow> PointT" where
  "computeCentroid_r ext r cloud =
     (if cloud = [] then \<lparr>px = Fin 0, py = Fin 0, pz = Fin 0, pr = 0, pg = 0, pb = 0\<rparr>
      else let n = of_count (length cloud); col = centroid_color ext cloud
           in \<lparr>px = rdiv r (fsum_r r (map px cloud)) n,
               py = rdiv r (fsum_r r (map py cloud)) n,
               pz = rdiv r (fsum_r r (map pz cloud)) n,
               pr = fst col, pg = fst (snd col), pb = snd (snd col)\<rparr>)"

text \<open>The unification of the three distances, with the rounding.\<close>

definition bin_of_r :: "(real \<Rightarrow> float) \<Rightarrow> Clustering \<Rightarrow> float \<Rightarrow> error + short" where
  "bin_of_r r s d =
     ebind (float_to_short (ffloor (rmul r d (of_short (bins_num s)))))
       (\<lambda>bin. Inr (if bin = bins_num s then bin - 1 else bin))"

definition t_c_r :: "(real \<Rightarrow> float) \<Rightarrow> Clustering \<Rightarrow> float \<Rightarrow> error + float" where
  "t_c_r r s delta_c =
     (case merging_type s of
        MANUAL_LAMBDA \<Rightarrow> Inr (rmul r (lambda_c s) delta_c)
      | ADAPTIVE_LAMBDA \<Rightarrow> Inr (rmul r (lambda_c s) delta_c)
      | EQUALIZATION \<Rightarrow>
          ebind (bin_of_r r s delta_c) (\<lambda>bin.
          ebind (cdf_at (cdf_c s) bin) (\<lambda>v. Inr (rdiv r v (Fin 3)))))"

definition t_g_r :: "(real \<Rightarrow> float) \<Rightarrow> Clustering \<Rightarrow> float \<Rightarrow> error + float" where
  "t_g_r r s delta_g =
     (case merging_type s of
        MANUAL_LAMBDA \<Rightarrow> Inr (rmul r (lambda_g s) delta_g)
      | ADAPTIVE_LAMBDA \<Rightarrow> Inr (rmul r (lambda_g s) delta_g)
      | EQUALIZATION \<Rightarrow>
          ebind (bin_of_r r s delta_g) (\<lambda>bin.
          ebind (cdf_at (cdf_g s) bin) (\<lambda>v. Inr (rdiv r v (Fin 3)))))"

definition t_h_r :: "(real \<Rightarrow> float) \<Rightarrow> Clustering \<Rightarrow> float \<Rightarrow> error + float" where
  "t_h_r r s delta_h =
     (case merging_type s of
        MANUAL_LAMBDA \<Rightarrow>
          Inr (rmul r (rsub r (rsub r (Fin 1) (lambda_c s)) (lambda_g s)) delta_h)
      | ADAPTIVE_LAMBDA \<Rightarrow>
          Inr (rmul r (rsub r (rsub r (Fin 1) (lambda_c s)) (lambda_g s)) delta_h)
      | EQUALIZATION \<Rightarrow>
          ebind (bin_of_r r s delta_h) (\<lambda>bin.
          ebind (cdf_at (cdf_h s) bin) (\<lambda>v. Inr (rdiv r v (Fin 3)))))"

definition unify_r :: "(real \<Rightarrow> float) \<Rightarrow> Clustering \<Rightarrow> vec3 \<Rightarrow> error + float" where
  "unify_r r s deltas =
     (case deltas of (d0, d1, d2) \<Rightarrow>
        ebind (t_c_r r s d0) (\<lambda>a.
        ebind (t_g_r r s d1) (\<lambda>b.
        ebind (t_h_r r s d2) (\<lambda>c. Inr (radd r (radd r a b) c)))))"

definition delta_r ::
  "Ext \<Rightarrow> (real \<Rightarrow> float) \<Rightarrow> Clustering \<Rightarrow> Supervoxel \<Rightarrow> Supervoxel \<Rightarrow> error + float" where
  "delta_r ext r s supvox1 supvox2 = unify_r r s (delta_c_g_h_r ext r s supvox1 supvox2)"

section \<open>Auxiliary notions for the statements\<close>

fun vneg :: "vec3 \<Rightarrow> vec3" where
  "vneg (a1, a2, a3) = (fneg a1, fneg a2, fneg a3)"






text \<open>A rounding that commutes with the change of sign.\<close>

definition odd_rounding :: "(real \<Rightarrow> float) \<Rightarrow> bool" where
  "odd_rounding r = (\<forall>x. r (- x) = fneg (r x))"


text \<open>Every edge of the graph joins two regions of the table.\<close>

definition edges_closed :: "ClusteringState \<Rightarrow> bool" where
  "edges_closed st =
     list_all (\<lambda>e. segments st (fst (snd e)) \<noteq> None \<and> segments st (snd (snd e)) \<noteq> None)
       (weight_map st)"


text \<open>
  A graph is well formed when every edge joins two regions of the table, goes from the
  smaller label to the greater, and no pair of labels occurs twice.
\<close>

definition well_formed :: "ClusteringState \<Rightarrow> bool" where
  "well_formed st =
     (edges_closed st
      \<and> list_all (\<lambda>e. fst (snd e) < snd (snd e)) (weight_map st)
      \<and> distinct (map snd (weight_map st)))"

text \<open>What holds of the new map and of the edges still to rewrite, in the loop of a merge.\<close>

definition rewriting :: "Clustering \<Rightarrow> uint32 \<Rightarrow> uint32 \<Rightarrow> WeightMapT \<Rightarrow> WeightMapT \<Rightarrow> bool" where
  "rewriting t u v es m =
     ((\<forall>e \<in> set m. segments (state t) (fst (snd e)) \<noteq> None \<and> segments (state t) (snd (snd e)) \<noteq> None
          \<and> fst (snd e) < snd (snd e)
          \<and> (fst (snd e) = u \<or> snd (snd e) = u \<or> snd e \<notin> snd ` set es))
      \<and> distinct (map snd m)
      \<and> (\<forall>e \<in> set es. fst (snd e) < snd (snd e) \<and> snd e \<noteq> (u, v)
          \<and> (fst (snd e) \<noteq> v \<longrightarrow> segments (state t) (fst (snd e)) \<noteq> None)
          \<and> (snd (snd e) \<noteq> v \<longrightarrow> segments (state t) (snd (snd e)) \<noteq> None))
      \<and> distinct (map snd es))"

section \<open>Example objects\<close>

text \<open>
  A region of one voxel at \<open>(a, 0, 0)\<close> with normal \<open>(nx, 0, nz)\<close>, \<open>k\<close> friction
  samples and friction \<open>f\<close>; and a choice of the collaborators, with the Euclidean
  distance for both colour kernels.
\<close>

definition example_region :: "real \<Rightarrow> real \<Rightarrow> real \<Rightarrow> nat \<Rightarrow> real \<Rightarrow> Supervoxel" where
  "example_region a nx nz k f =
     \<lparr>voxels = [\<lparr>px = Fin a, py = Fin 0, pz = Fin 0, pr = 128, pg = 128, pb = 128\<rparr>],
      normals = [\<lparr>normal_x = Fin nx, normal_y = Fin 0, normal_z = Fin nz, curvature = Fin 0\<rparr>],
      centroid = \<lparr>px = Fin a, py = Fin 0, pz = Fin 0, pr = 128, pg = 128, pb = 128\<rparr>,
      normal = \<lparr>normal_x = Fin nx, normal_y = Fin 0, normal_z = Fin nz, curvature = Fin 0\<rparr>,
      frictions = replicate k \<lparr>ix = Fin a, iy = Fin 0, iz = Fin 0, intensity = Fin f\<rparr>,
      friction = Fin f, friction_variance = Fin 0,
      mean = (Fin 128, Fin 128, Fin 128, Fin f)\<rparr>"

definition example_ext :: Ext where
  "example_ext =
     \<lparr>mean_color = (\<lambda>sv. case mean sv of (m0, m1, m2, m3) \<Rightarrow> (m0, m1, m2)),
      rgb2lab = (\<lambda>c. c),
      lab_ciede00 = (\<lambda>a b. norm3 (vsub a b)),
      rgb_eucl = (\<lambda>a b. norm3 (vsub a b)),
      LAB_RANGE = Fin 100, RGB_RANGE = Fin 255,
      computePointNormal = (\<lambda>cloud. ((Fin 0, Fin 0, Fin 1, Fin 0), Fin 0)),
      flipNormalTowardsViewpoint = (\<lambda>p n. n),
      normalize = (\<lambda>n. n),
      centroid_color = (\<lambda>cloud. (128, 128, 128)),
      new_Supervoxel = example_region 0 0 1 0 0,
      gmr = (\<lambda>x. (Fin 2, Fin 0.5))\<rparr>"

definition region_one :: Supervoxel where
  "region_one = example_region 0 0 1 1 0.2"

definition region_two :: Supervoxel where
  "region_two = example_region 4 0 1 3 0.4"

definition region_three :: Supervoxel where
  "region_three = example_region 3 1 0 1 0.9"

definition region_four :: Supervoxel where
  "region_four = example_region 1 1 0 1 0.9"

definition example_segments :: ClusteringT where
  "example_segments = [1 \<mapsto> region_one, 2 \<mapsto> region_two, 3 \<mapsto> region_three]"

definition example_state :: ClusteringState where
  "example_state =
     \<lparr>segments = example_segments,
      weight_map = [(Fin 0.1, (1, 2)), (Fin 0.2, (1, 3)), (Fin 0.3, (2, 3))]\<rparr>"

definition example_clustering :: Clustering where
  "example_clustering =
     (Clustering_new LAB_CIEDE00 CONVEX_NORMALS_DIFF AVERAGE_FRICTION MANUAL_LAMBDA (Fin 0.25))
       \<lparr>set_initial_state := True, init_initial_weights := True,
        initial_state := example_state, state := example_state\<rparr>"

text \<open>
  Two regions and the edge between them in both directions, given to a new object with
  \<open>set_initialstate\<close>: an initial state whose weights are not yet initialised.
\<close>

definition example_pair :: Clustering where
  "example_pair =
     set_initialstate [1 \<mapsto> region_one, 2 \<mapsto> region_four] [(1, 2), (2, 1)]
       (Clustering_new LAB_CIEDE00 CONVEX_NORMALS_DIFF AVERAGE_FRICTION MANUAL_LAMBDA (Fin 0.25))"

text \<open>Two regions of different colour, with frictions that single precision represents.\<close>

definition region_grey :: Supervoxel where
  "region_grey = example_region 0 0 1 1 0.25"

definition region_red :: Supervoxel where
  "region_red = (example_region 1 1 0 1 0.75)\<lparr>mean := (Fin 129, Fin 128, Fin 128, Fin 0.75)\<rparr>"

text \<open>
  Two regions of the same colour and friction at \<open>(1, 0, 0)\<close> and \<open>(0, 0, 0)\<close>, with the
  normals \<open>(2 ^ -24, 1, 0)\<close> and \<open>(2 ^ -23, 0, 1)\<close>, whose length is 1 in single precision;
  and an object that weights the geometric distance with \<open>0.5\<close>.
\<close>

definition region_tilted_one :: Supervoxel where
  "region_tilted_one =
     (example_region 1 0 0 0 0)
       \<lparr>normal := \<lparr>normal_x = Fin (1 / 16777216), normal_y = Fin 1, normal_z = Fin 0,
                   curvature = Fin 0\<rparr>\<rparr>"

definition region_tilted_two :: Supervoxel where
  "region_tilted_two =
     (example_region 0 0 0 0 0)
       \<lparr>normal := \<lparr>normal_x = Fin (1 / 8388608), normal_y = Fin 0, normal_z = Fin 1,
                   curvature = Fin 0\<rparr>\<rparr>"

definition example_half :: Clustering where
  "example_half =
     Clustering_new LAB_CIEDE00 NORMALS_DIFF AVERAGE_FRICTION MANUAL_LAMBDA (Fin 0.5)"

text \<open>
  Two regions, the edge between them and a self-loop on the second, given to a new
  object with \<open>set_initialstate\<close>; the graph that \<open>init_weights\<close> computes for it; and
  the object at the first turn of the merge loop.
\<close>

definition example_loop :: Clustering where
  "example_loop =
     set_initialstate [1 \<mapsto> region_one, 2 \<mapsto> region_four] [(1, 2), (2, 2)]
       (Clustering_new LAB_CIEDE00 CONVEX_NORMALS_DIFF AVERAGE_FRICTION MANUAL_LAMBDA (Fin 0.25))"

definition example_loop_state :: ClusteringState where
  "example_loop_state =
     \<lparr>segments = [1 \<mapsto> region_one, 2 \<mapsto> region_four],
      weight_map = [(Fin (31 / 120), (1, 2)), (NaN, (2, 2))]\<rparr>"

definition example_loop_weighted :: Clustering where
  "example_loop_weighted =
     example_loop\<lparr>initial_state := example_loop_state, init_initial_weights := True,
                  state := example_loop_state\<rparr>"




section \<open>Arithmetic of the special values\<close>

lemma fadd_right_swap: "fadd (fadd x y) z = fadd (fadd x z) y"
  by (cases x; cases y; cases z) simp_all

lemma fmul_commute: "fmul x y = fmul y x"
  by (cases x; cases y) (auto simp: mult.commute)

lemma fsub_swap: "fsub y x = fneg (fsub x y)"
  by (cases x; cases y) (simp_all add: fsub_def)

lemma fmul_fneg_right: "fmul x (fneg y) = fneg (fmul x y)"
  by (cases x; cases y) auto

lemma fmul_fneg_fneg: "fmul (fneg x) (fneg y) = fmul x y"
  by (cases x; cases y) auto

lemma fdiv_fneg_left: "fdiv (fneg x) k = fneg (fdiv x k)"
  by (cases x; cases k) auto

lemma fabs_fneg: "fabs (fneg x) = fabs x"
  by (cases x) simp_all

lemma fge_fneg: "fge (fneg x) (fneg y) = fge y x"
  by (cases x; cases y) simp_all

lemma vsub_swap: "vsub b a = vneg (vsub a b)"
  by (cases a; cases b) (simp add: fsub_swap[symmetric])

lemma dot_vneg_vneg: "dot (vneg c) (vneg c) = dot c c"
  by (cases c) (simp add: fmul_fneg_fneg)

lemma norm3_vneg: "norm3 (vneg c) = norm3 c"
  by (simp add: norm3_def dot_vneg_vneg)





section \<open>The rounding\<close>

text \<open>
  The value of \<open>binary32\<close> at a positive number between two consecutive powers of two,
  from the nearest integer to its quotient by the spacing.
\<close>

lemma pow2_powr: "pow2 k = 2 powr (of_int k)"
proof (cases "0 \<le> k")
  case True
  then have "2 powr (of_int k) = (2::real) ^ nat k"
    by (metis of_int_of_nat_eq nat_0_le powr_realpow zero_less_numeral of_int_of_nat_eq)
  with True show ?thesis by (simp add: pow2_def)
next
  case False
  then have "2 powr (of_int k) = 2 powr (- of_nat (nat (- k)))" by simp
  also have "\<dots> = 1 / (2::real) ^ nat (- k)"
    by (simp add: powr_minus powr_realpow divide_inverse)
  finally show ?thesis using False by (simp add: pow2_def)
qed

lemma pow2_pos: "0 < pow2 k"
  by (simp add: pow2_powr)

lemma floor_log2:
  assumes "pow2 k \<le> m" and "m < pow2 (k + 1)"
  shows "\<lfloor>log 2 m\<rfloor> = k"
proof -
  have "0 < m" using pow2_pos[of k] assms(1) by linarith
  then show ?thesis
    using assms by (simp add: floor_log_eq_powr_iff pow2_powr)
qed

lemma binary32_eval:
  assumes "0 < x" and "pow2 k \<le> x" and "x < pow2 (k + 1)"
    and "- 126 \<le> k" and "k \<le> 126"
    and "round_even (x / pow2 (k - 23)) = n" and "n \<le> 2 ^ 24"
  shows "binary32 x = Fin (pow2 (k - 23) * of_int n)"
proof -
  have e: "max \<lfloor>log 2 \<bar>x\<bar>\<rfloor> (- 126) = k"
    using floor_log2[OF assms(2,3)] assms(1,4) by simp
  have "pow2 (k - 23) * of_int n \<le> pow2 (k - 23) * 2 ^ 24"
    using assms(7) pow2_pos[of "k - 23"]
    by (metis mult_left_mono less_imp_le of_int_le_iff of_int_numeral of_int_power)
  also have "\<dots> = pow2 (k + 1)"
  proof -
    have "(2::real) ^ 24 = 2 powr 24" by simp
    then show ?thesis
      by (simp only: pow2_powr powr_add[symmetric]) (simp add: add.commute)
  qed
  also have "\<dots> \<le> pow2 127"
    using assms(5) unfolding pow2_powr by (subst powr_le_cancel_iff) simp_all
  also have "\<dots> < pow2 128"
    by (simp add: pow2_def)
  finally have "\<not> pow2 128 \<le> pow2 (k - 23) * of_int n" by simp
  then show ?thesis
    using assms(1,6) e by (simp add: binary32_def Let_def)
qed

lemma binary32_odd: "binary32 (- x) = fneg (binary32 x)"
  by (auto simp: binary32_def Let_def sgn_if)

text \<open>With no rounding the operations and the kernels are those of the exact model.\<close>

lemma radd_Fin: "radd Fin x y = fadd x y"
  by (cases x; cases y) simp_all

lemma rmul_Fin: "rmul Fin x y = fmul x y"
  by (cases x; cases y) simp_all

lemma rdiv_Fin: "rdiv Fin x y = fdiv x y"
  by (cases x; cases y) simp_all

lemma rsqrt_Fin: "rsqrt Fin x = fsqrt x"
  by (cases x) simp_all

lemma kernels_Fin:
  "vsub_r Fin a b = vsub a b" "dot_r Fin a b = dot a b" "cross_r Fin a b = cross a b"
  "norm3_r Fin a = norm3 a" "vdivs_r Fin a k = vdivs a k"
  by (cases a; cases b;
      simp add: radd_Fin rmul_Fin rdiv_Fin rsqrt_Fin rsub_def fsub_def norm3_r_def norm3_def)+

lemma is_convex_r_Fin: "is_convex_r Fin n1 c1 n2 c2 = is_convex n1 c1 n2 c2"
  by (simp add: is_convex_r_def is_convex_def kernels_Fin)

lemma normals_diff_r_Fin: "normals_diff_r Fin n1 c1 n2 c2 = normals_diff n1 c1 n2 c2"
  by (simp add: normals_diff_r_def normals_diff_def kernels_Fin radd_Fin rdiv_Fin)

lemma odd_rounding_binary32: "odd_rounding binary32"
  by (simp add: odd_rounding_def binary32_odd)

lemma odd_rounding_Fin: "odd_rounding Fin"
  by (simp add: odd_rounding_def)

lemma radd_fneg:
  assumes "odd_rounding r"
  shows "radd r (fneg x) (fneg y) = fneg (radd r x y)"
proof (cases x; cases y)
  fix a b
  assume "x = Fin a" and "y = Fin b"
  moreover have "r (- (a + b)) = fneg (r (a + b))"
    using assms by (simp only: odd_rounding_def)
  ultimately show ?thesis by simp
qed simp_all

lemma rsub_swap:
  assumes "odd_rounding r"
  shows "rsub r y x = fneg (rsub r x y)"
proof (cases x; cases y)
  fix a b
  assume "x = Fin a" and "y = Fin b"
  moreover have "r (- (a - b)) = fneg (r (a - b))"
    using assms by (simp only: odd_rounding_def)
  ultimately show ?thesis by (simp add: rsub_def)
qed (simp_all add: rsub_def)

lemma rmul_commute: "rmul r x y = rmul r y x"
proof (cases x; cases y)
  fix a b
  assume "x = Fin a" and "y = Fin b"
  then show ?thesis by (simp add: mult.commute)
qed (simp_all add: fmul_commute)

lemma rmul_fneg_right:
  assumes "odd_rounding r"
  shows "rmul r x (fneg y) = fneg (rmul r x y)"
proof (cases x; cases y)
  fix a b
  assume "x = Fin a" and "y = Fin b"
  moreover have "r (- (a * b)) = fneg (r (a * b))"
    using assms by (simp only: odd_rounding_def)
  ultimately show ?thesis by simp
qed (simp_all add: fmul_fneg_right[symmetric])

lemma rmul_fneg_fneg: "rmul r (fneg x) (fneg y) = rmul r x y"
proof (cases x; cases y)
  fix a b
  assume "x = Fin a" and "y = Fin b"
  then show ?thesis by simp
qed (use fmul_fneg_fneg[of x y] in simp_all)

lemma rdiv_fneg_left:
  assumes "odd_rounding r"
  shows "rdiv r (fneg x) k = fneg (rdiv r x k)"
proof (cases x; cases k)
  fix a b
  assume xk: "x = Fin a" "k = Fin b"
  have "r (- (a / b)) = fneg (r (a / b))"
    using assms by (simp only: odd_rounding_def)
  moreover have "fdiv (Fin (- a)) (Fin b) = fneg (fdiv (Fin a) (Fin b))"
    using fdiv_fneg_left[of "Fin a" "Fin b"] by simp
  ultimately show ?thesis using xk by simp
qed (simp_all add: fdiv_fneg_left[symmetric])

lemma vsub_r_swap: "odd_rounding r \<Longrightarrow> vsub_r r b a = vneg (vsub_r r a b)"
  by (cases a; cases b) (simp add: rsub_swap[symmetric])

lemma dot_r_vneg_right: "odd_rounding r \<Longrightarrow> dot_r r n (vneg c) = fneg (dot_r r n c)"
  by (cases n; cases c) (simp add: rmul_fneg_right radd_fneg)

lemma norm3_r_vneg: "norm3_r r (vneg c) = norm3_r r c"
  by (cases c) (simp add: norm3_r_def rmul_fneg_fneg)

lemma vdivs_r_vneg: "odd_rounding r \<Longrightarrow> vdivs_r r (vneg c) k = vneg (vdivs_r r c k)"
  by (cases c) (simp add: rdiv_fneg_left)

lemma cross_r_swap: "odd_rounding r \<Longrightarrow> cross_r r b a = vneg (cross_r r a b)"
  by (cases a; cases b) (simp add: rsub_swap[symmetric] rmul_commute)

lemma is_convex_r_swap:
  "odd_rounding r \<Longrightarrow> is_convex_r r n2 c2 n1 c1 = is_convex_r r n1 c1 n2 c2"
  unfolding is_convex_r_def Let_def
  by (simp add: vsub_r_swap[of r "getVector3fMap c2" "getVector3fMap c1"] norm3_r_vneg
      vdivs_r_vneg dot_r_vneg_right fge_fneg)

lemma normals_diff_r_swap:
  assumes "odd_rounding r"
  shows "normals_diff_r r n2 c2 n1 c1 =
     (let N1 = getNormalVector3fMap n1;
          C1 = getVector3fMap c1;
          N2 = getNormalVector3fMap n2;
          C2 = getVector3fMap c2;
          C = vsub_r r C1 C2;
          C = vdivs_r r C (norm3_r r C);
          N1xN2 = norm3_r r (cross_r r N1 N2);
          N1_C = fabs (dot_r r N1 C);
          N2_C = fabs (dot_r r N2 C)
      in rdiv r (radd r (radd r N1xN2 N2_C) N1_C) (Fin 3))"
  unfolding normals_diff_r_def Let_def
  using assms
  by (simp add: vsub_r_swap[of r "getVector3fMap c2" "getVector3fMap c1"]
      cross_r_swap[of r "getNormalVector3fMap n2" "getNormalVector3fMap n1"]
      norm3_r_vneg vdivs_r_vneg dot_r_vneg_right fabs_fneg)

lemma haptic_r_swap: "odd_rounding r \<Longrightarrow> fabs (rsub r y x) = fabs (rsub r x y)"
  by (simp add: rsub_swap[of r x y] fabs_fneg)

lemma delta_c_g_h_r_Fin: "delta_c_g_h_r ext Fin s u v = delta_c_g_h ext s u v"
  by (simp add: delta_c_g_h_r_def delta_c_g_h_def delta_c_r_def delta_c_of_def delta_g_r_def
      delta_g_of_def delta_h_r_def delta_h_of_def normals_diff_r_Fin is_convex_r_Fin rdiv_Fin rmul_Fin
      radd_Fin rsub_def fsub_def Let_def
      split: ColorDistance.splits GeometricDistance.splits HapticDistance.splits)

lemma unify_r_Fin: "unify_r Fin s ds = unify s ds"
  by (simp add: unify_r_def unify_def t_c_r_def t_c_def t_g_r_def t_g_def t_h_r_def t_h_def
      bin_of_r_def bin_of_def rmul_Fin rdiv_Fin radd_Fin rsub_def fsub_def
      split: MergingCriterion.splits prod.splits)

lemma delta_r_Fin: "delta_r ext Fin s u v = delta ext s u v"
  by (simp add: delta_r_def delta_def delta_c_g_h_r_Fin unify_r_Fin)

lemma computeCentroid_r_Fin: "computeCentroid_r ext Fin cloud = computeCentroid ext cloud"
proof -
  have "radd Fin = fadd" by (intro ext) (rule radd_Fin)
  then show ?thesis
    by (simp add: computeCentroid_r_def computeCentroid_def fsum_r_def fsum_def rdiv_Fin)
qed

text \<open>The values of \<open>binary32\<close> that the examples need.\<close>

lemma binary32_zero [simp]: "binary32 0 = Fin 0"
  by (simp add: binary32_def)

lemma binary32_value_0 [simp]: "binary32 1 = Fin 1"
  by (rule binary32_eval[where k = "0" and n = 8388608, THEN trans])
    (simp_all add: pow2_def round_even_def)

lemma binary32_value_1 [simp]: "binary32 2 = Fin 2"
  by (rule binary32_eval[where k = "1" and n = 8388608, THEN trans])
    (simp_all add: pow2_def round_even_def)

lemma binary32_value_2 [simp]: "binary32 3 = Fin 3"
  by (rule binary32_eval[where k = "1" and n = 12582912, THEN trans])
    (simp_all add: pow2_def round_even_def)

lemma binary32_value_3 [simp]: "binary32 4 = Fin 4"
  by (rule binary32_eval[where k = "2" and n = 8388608, THEN trans])
    (simp_all add: pow2_def round_even_def)

lemma binary32_value_4 [simp]: "binary32 (1 / 2) = Fin (1 / 2)"
  by (rule binary32_eval[where k = "- 1" and n = 8388608, THEN trans])
    (simp_all add: pow2_def round_even_def)

lemma binary32_value_5 [simp]: "binary32 (1 / 16777216) = Fin (1 / 16777216)"
  by (rule binary32_eval[where k = "- 24" and n = 8388608, THEN trans])
    (simp_all add: pow2_def round_even_def)

lemma binary32_value_6 [simp]: "binary32 (1 / 8388608) = Fin (1 / 8388608)"
  by (rule binary32_eval[where k = "- 23" and n = 8388608, THEN trans])
    (simp_all add: pow2_def round_even_def)

lemma binary32_value_7 [simp]: "binary32 (1 / 281474976710656) = Fin (1 / 281474976710656)"
  by (rule binary32_eval[where k = "- 48" and n = 8388608, THEN trans])
    (simp_all add: pow2_def round_even_def)

lemma binary32_value_8 [simp]: "binary32 (1 / 70368744177664) = Fin (1 / 70368744177664)"
  by (rule binary32_eval[where k = "- 46" and n = 8388608, THEN trans])
    (simp_all add: pow2_def round_even_def)

lemma binary32_value_9 [simp]: "binary32 (8388609 / 8388608) = Fin (8388609 / 8388608)"
  by (rule binary32_eval[where k = "0" and n = 8388609, THEN trans])
    (simp_all add: pow2_def round_even_def)

lemma binary32_value_10 [simp]: "binary32 (12582913 / 16777216) = Fin (12582913 / 16777216)"
  by (rule binary32_eval[where k = "- 1" and n = 12582913, THEN trans])
    (simp_all add: pow2_def round_even_def)

lemma binary32_value_11 [simp]: "binary32 (6291457 / 8388608) = Fin (6291457 / 8388608)"
  by (rule binary32_eval[where k = "- 1" and n = 12582914, THEN trans])
    (simp_all add: pow2_def round_even_def)

lemma binary32_value_12 [simp]: "binary32 (281474976710657 / 281474976710656) = Fin 1"
  by (rule binary32_eval[where k = "0" and n = 8388608, THEN trans])
    (simp_all add: pow2_def round_even_def)

lemma binary32_value_13 [simp]: "binary32 (70368744177665 / 70368744177664) = Fin 1"
  by (rule binary32_eval[where k = "0" and n = 8388608, THEN trans])
    (simp_all add: pow2_def round_even_def)

lemma binary32_value_14 [simp]: "binary32 (16777217 / 16777216) = Fin 1"
  by (rule binary32_eval[where k = "0" and n = 8388608, THEN trans])
    (simp_all add: pow2_def round_even_def)

lemma binary32_value_15 [simp]: "binary32 (16777219 / 16777216) = Fin (4194305 / 4194304)"
  by (rule binary32_eval[where k = "0" and n = 8388610, THEN trans])
    (simp_all add: pow2_def round_even_def)

lemma binary32_value_16 [simp]: "binary32 (2796203 / 8388608) = Fin (2796203 / 8388608)"
  by (rule binary32_eval[where k = "- 2" and n = 11184812, THEN trans])
    (simp_all add: pow2_def round_even_def)

lemma binary32_value_17 [simp]: "binary32 (4194305 / 12582912) = Fin (11184813 / 33554432)"
  by (rule binary32_eval[where k = "- 2" and n = 11184813, THEN trans])
    (simp_all add: pow2_def round_even_def)

lemma binary32_value_18 [simp]: "binary32 (12582913 / 50331648) = Fin (8388609 / 33554432)"
  by (rule binary32_eval[where k = "- 2" and n = 8388609, THEN trans])
    (simp_all add: pow2_def round_even_def)

lemma binary32_value_19 [simp]: "binary32 (12582913 / 67108864) = Fin (12582913 / 67108864)"
  by (rule binary32_eval[where k = "- 3" and n = 12582913, THEN trans])
    (simp_all add: pow2_def round_even_def)

lemma binary32_value_20 [simp]: "binary32 (25165827 / 33554432) = Fin (6291457 / 8388608)"
  by (rule binary32_eval[where k = "- 1" and n = 12582914, THEN trans])
    (simp_all add: pow2_def round_even_def)

lemma binary32_value_21 [simp]: "binary32 (6291457 / 33554432) = Fin (6291457 / 33554432)"
  by (rule binary32_eval[where k = "- 3" and n = 12582914, THEN trans])
    (simp_all add: pow2_def round_even_def)

lemma binary32_value_22 [simp]: "binary32 (2 / 3) = Fin (11184811 / 16777216)"
  by (rule binary32_eval[where k = "- 1" and n = 11184811, THEN trans])
    (simp_all add: pow2_def round_even_def)

lemma binary32_value_23 [simp]: "binary32 (1 / 100) = Fin (5368709 / 536870912)"
  by (rule binary32_eval[where k = "- 7" and n = 10737418, THEN trans])
    (simp_all add: pow2_def round_even_def)

lemma binary32_value_24 [simp]: "binary32 (11184811 / 33554432) = Fin (11184811 / 33554432)"
  by (rule binary32_eval[where k = "- 2" and n = 11184811, THEN trans])
    (simp_all add: pow2_def round_even_def)

lemma binary32_value_25 [simp]: "binary32 (2796203 / 16777216) = Fin (2796203 / 16777216)"
  by (rule binary32_eval[where k = "- 3" and n = 11184812, THEN trans])
    (simp_all add: pow2_def round_even_def)

lemma binary32_value_26 [simp]: "binary32 (11184813 / 67108864) = Fin (11184813 / 67108864)"
  by (rule binary32_eval[where k = "- 3" and n = 11184813, THEN trans])
    (simp_all add: pow2_def round_even_def)

section \<open>Convexity halving\<close>



section \<open>Symmetry of the distance\<close>

lemma example_sym: "lab_ciede00 example_ext a b = lab_ciede00 example_ext b a"
   "rgb_eucl example_ext a b = rgb_eucl example_ext b a"
  by (simp_all add: example_ext_def vsub_swap[of b a] norm3_vneg)

lemma delta_c_r_swap:
  assumes "\<And>a b. lab_ciede00 ext a b = lab_ciede00 ext b a"
    and "\<And>a b. rgb_eucl ext a b = rgb_eucl ext b a"
  shows "delta_c_r ext r s v u = delta_c_r ext r s u v"
  using assms by (simp add: delta_c_r_def Let_def split: ColorDistance.splits)

lemma delta_h_r_swap: "odd_rounding r \<Longrightarrow> delta_h_r r s v u = delta_h_r r s u v"
  by (simp add: delta_h_r_def Let_def haptic_r_swap[of r "friction v"] split: HapticDistance.splits)

lemma delta_g_r_swap:
  assumes "odd_rounding r"
    and "normals_diff_r r (normal v) (centroid v) (normal u) (centroid u)
       = normals_diff_r r (normal u) (centroid u) (normal v) (centroid v)"
  shows "delta_g_r r s v u = delta_g_r r s u v"
  using assms(2) is_convex_r_swap[OF assms(1), of "normal v" "centroid v" "normal u" "centroid u"]
  by (simp add: delta_g_r_def Let_def split: GeometricDistance.splits)

lemma normals_diff_Fin_swap:
  "normals_diff_r Fin n2 c2 n1 c1 = normals_diff_r Fin n1 c1 n2 c2"
proof -
  have "normals_diff_r Fin n2 c2 n1 c1 =
     (let N1 = getNormalVector3fMap n1;
          C1 = getVector3fMap c1;
          N2 = getNormalVector3fMap n2;
          C2 = getVector3fMap c2;
          C = vsub_r Fin C1 C2;
          C = vdivs_r Fin C (norm3_r Fin C);
          N1xN2 = norm3_r Fin (cross_r Fin N1 N2);
          N1_C = fabs (dot_r Fin N1 C);
          N2_C = fabs (dot_r Fin N2 C)
      in rdiv Fin (radd Fin (radd Fin N1xN2 N2_C) N1_C) (Fin 3))"
    using odd_rounding_Fin by (rule normals_diff_r_swap)
  also have "\<dots> = normals_diff_r Fin n1 c1 n2 c2"
    unfolding normals_diff_r_def Let_def radd_Fin
    by (rule arg_cong[where f = "\<lambda>x. rdiv Fin x (Fin 3)"]) (rule fadd_right_swap)
  finally show ?thesis .
qed

text \<open>
  Claim C5. Let the rounding commute with the change of sign, as that of single
  precision does, and the two colour kernels be symmetric. Swapping the two regions
  leaves the result of the convexity test, the colour distance and the haptic distance
  as they are. The three terms of \<open>normals_diff\<close>, the norm of the cross product and the
  two absolute cosines, are the same three numbers, but the last two are added in the
  other order: the swapped call returns \<open>(N1xN2 + N2_C + N1_C) / 3\<close>. When this is the
  number that the first order gives, the three distances and the unified distance are
  the same in both orders, in every configuration of the distances and of the merging
  mode; without rounding it always is.
\<close>

theorem delta_swap:
  assumes "odd_rounding r"
    and "\<And>a b. lab_ciede00 ext a b = lab_ciede00 ext b a"
    and "\<And>a b. rgb_eucl ext a b = rgb_eucl ext b a"
  shows "is_convex_r r (normal v) (centroid v) (normal u) (centroid u)
        = is_convex_r r (normal u) (centroid u) (normal v) (centroid v)
    \<and> delta_c_r ext r s v u = delta_c_r ext r s u v
    \<and> delta_h_r r s v u = delta_h_r r s u v
    \<and> normals_diff_r r (normal v) (centroid v) (normal u) (centroid u) =
        (let N1 = getNormalVector3fMap (normal u);
             C1 = getVector3fMap (centroid u);
             N2 = getNormalVector3fMap (normal v);
             C2 = getVector3fMap (centroid v);
             C = vsub_r r C1 C2;
             C = vdivs_r r C (norm3_r r C);
             N1xN2 = norm3_r r (cross_r r N1 N2);
             N1_C = fabs (dot_r r N1 C);
             N2_C = fabs (dot_r r N2 C)
         in rdiv r (radd r (radd r N1xN2 N2_C) N1_C) (Fin 3))
    \<and> (normals_diff_r r (normal v) (centroid v) (normal u) (centroid u)
          = normals_diff_r r (normal u) (centroid u) (normal v) (centroid v) \<longrightarrow>
        delta_c_g_h_r ext r s v u = delta_c_g_h_r ext r s u v
        \<and> delta_r ext r s v u = delta_r ext r s u v)
    \<and> delta_c_g_h_r ext Fin s v u = delta_c_g_h_r ext Fin s u v
    \<and> delta_r ext Fin s v u = delta_r ext Fin s u v"
proof -
  have c: "delta_c_r ext q s v u = delta_c_r ext q s u v" for q
    using assms(2,3) by (rule delta_c_r_swap)
  have t: "delta_c_g_h_r ext q s v u = delta_c_g_h_r ext q s u v"
    if "odd_rounding q"
      and "normals_diff_r q (normal v) (centroid v) (normal u) (centroid u)
         = normals_diff_r q (normal u) (centroid u) (normal v) (centroid v)" for q
    by (simp add: delta_c_g_h_r_def c delta_h_r_swap[OF that(1)] delta_g_r_swap[OF that])
  have e: "delta_c_g_h_r ext Fin s v u = delta_c_g_h_r ext Fin s u v"
    using odd_rounding_Fin normals_diff_Fin_swap by (rule t)
  show ?thesis
    using is_convex_r_swap[OF assms(1)] c delta_h_r_swap[OF assms(1)]
      normals_diff_r_swap[OF assms(1)] t[OF assms(1)] e
    by (simp add: delta_r_def)
qed

lemma colour_pair_fields:
  "getNormalVector3fMap (normal region_grey) = (Fin 0, Fin 0, Fin 1)"
  "getNormalVector3fMap (normal region_red) = (Fin 1, Fin 0, Fin 0)"
  "getVector3fMap (centroid region_grey) = (Fin 0, Fin 0, Fin 0)"
  "getVector3fMap (centroid region_red) = (Fin 1, Fin 0, Fin 0)"
  "friction region_grey = Fin (1 / 4)" "friction region_red = Fin (3 / 4)"
  "mean region_grey = (Fin 128, Fin 128, Fin 128, Fin (1 / 4))"
  "mean region_red = (Fin 129, Fin 128, Fin 128, Fin (3 / 4))"
  by (simp_all add: region_red_def region_grey_def example_region_def
      getVector3fMap_def getNormalVector3fMap_def)

lemma colour_pair_normals_diff:
  "normals_diff_r binary32 (normal region_red) (centroid region_red)
     (normal region_grey) (centroid region_grey) = Fin (11184811 / 16777216)"
  "normals_diff_r binary32 (normal region_grey) (centroid region_grey)
     (normal region_red) (centroid region_red) = Fin (11184811 / 16777216)"
  by (simp_all add: normals_diff_r_def colour_pair_fields norm3_r_def rsub_def binary32_odd)

lemma colour_pair_distances:
  "delta_c_g_h_r example_ext binary32 example_clustering region_grey region_red
     = (Fin (5368709 / 536870912), Fin (11184811 / 33554432), Fin (1 / 2))"
  by (simp add: delta_c_g_h_r_def delta_c_r_def delta_g_r_def delta_h_r_def
      colour_pair_normals_diff is_convex_r_def example_clustering_def Clustering_new_def
      example_ext_def colour_pair_fields norm3_r_def norm3_def rsub_def fsub_def binary32_odd)

text \<open>
  In single precision, two regions with the colour distance \<open>0.01\<close>, the geometric
  distance \<open>1/3\<close> and the haptic distance \<open>0.5\<close>, the nearest numbers of the format: the
  two orders of \<open>normals_diff\<close> agree, and so do those of the three distances and of
  the unified distance.
\<close>

theorem delta_swap_witness:
  "normals_diff_r binary32 (normal region_red) (centroid region_red)
     (normal region_grey) (centroid region_grey)
     = normals_diff_r binary32 (normal region_grey) (centroid region_grey)
         (normal region_red) (centroid region_red)
   \<and> delta_c_g_h_r example_ext binary32 example_clustering region_grey region_red
     = (Fin (5368709 / 536870912), Fin (11184811 / 33554432), Fin (1 / 2))
   \<and> delta_c_g_h_r example_ext binary32 example_clustering region_red region_grey
     = (Fin (5368709 / 536870912), Fin (11184811 / 33554432), Fin (1 / 2))
   \<and> delta_r example_ext binary32 example_clustering region_red region_grey
     = delta_r example_ext binary32 example_clustering region_grey region_red"
proof -
  have n: "normals_diff_r binary32 (normal region_red) (centroid region_red)
     (normal region_grey) (centroid region_grey)
     = normals_diff_r binary32 (normal region_grey) (centroid region_grey)
         (normal region_red) (centroid region_red)"
    by (simp add: colour_pair_normals_diff)
  from delta_swap[OF odd_rounding_binary32 example_sym, of region_red region_grey
      example_clustering] n colour_pair_distances
  show ?thesis by simp
qed

lemma tilted_pair_fields:
  "getNormalVector3fMap (normal region_tilted_one) = (Fin (1 / 16777216), Fin 1, Fin 0)"
  "getNormalVector3fMap (normal region_tilted_two) = (Fin (1 / 8388608), Fin 0, Fin 1)"
  "getVector3fMap (centroid region_tilted_one) = (Fin 1, Fin 0, Fin 0)"
  "getVector3fMap (centroid region_tilted_two) = (Fin 0, Fin 0, Fin 0)"
  "friction region_tilted_one = Fin 0" "friction region_tilted_two = Fin 0"
  "mean region_tilted_one = (Fin 128, Fin 128, Fin 128, Fin 0)"
  "mean region_tilted_two = (Fin 128, Fin 128, Fin 128, Fin 0)"
  by (simp_all add: region_tilted_one_def region_tilted_two_def example_region_def
      getVector3fMap_def getNormalVector3fMap_def)

lemma tilted_pair_normals_diff:
  "normals_diff_r binary32 (normal region_tilted_one) (centroid region_tilted_one)
     (normal region_tilted_two) (centroid region_tilted_two) = Fin (2796203 / 8388608)"
  "normals_diff_r binary32 (normal region_tilted_two) (centroid region_tilted_two)
     (normal region_tilted_one) (centroid region_tilted_one) = Fin (11184813 / 33554432)"
  by (simp_all add: normals_diff_r_def tilted_pair_fields norm3_r_def rsub_def binary32_odd)

text \<open>
  In single precision, two regions with the cross product of norm 1 and the cosines
  \<open>2 ^ -24\<close> and \<open>2 ^ -23\<close>: \<open>1 + 2 ^ -24\<close> is rounded to 1 and \<open>1 + 2 ^ -23\<close> is not, so the
  two orders of \<open>normals_diff\<close> differ in the last bit, and with them the two orders of
  the unified distance.
\<close>

theorem delta_swap_counterexample:
  "normals_diff_r binary32 (normal region_tilted_one) (centroid region_tilted_one)
     (normal region_tilted_two) (centroid region_tilted_two) = Fin (2796203 / 8388608)
   \<and> normals_diff_r binary32 (normal region_tilted_two) (centroid region_tilted_two)
     (normal region_tilted_one) (centroid region_tilted_one) = Fin (11184813 / 33554432)
   \<and> delta_r example_ext binary32 example_half region_tilted_one region_tilted_two
     = Inr (Fin (2796203 / 16777216))
   \<and> delta_r example_ext binary32 example_half region_tilted_two region_tilted_one
     = Inr (Fin (11184813 / 67108864))"
  by (simp add: tilted_pair_normals_diff delta_r_def delta_c_g_h_r_def delta_c_r_def delta_g_r_def
      delta_h_r_def unify_r_def t_c_r_def t_g_r_def t_h_r_def ebind_def example_half_def
      Clustering_new_def example_ext_def tilted_pair_fields norm3_def fsub_def rsub_def)

section \<open>Equal centroids\<close>

lemma fmul_NaN_right: "fmul x NaN = NaN"
  by (cases x) simp_all

lemma fadd_NaN_right: "fadd x NaN = NaN"
  by (cases x) simp_all

lemma fdiv_NaN_left: "fdiv NaN k = NaN"
  by (cases k) simp_all

lemma dot_NaN: "dot n (NaN, NaN, NaN) = NaN"
  by (cases n) (simp add: fmul_NaN_right fadd_NaN_right)

lemma unit_of_zero_difference: "vdivs (vsub p p) (norm3 (vsub p p)) = (NaN, NaN, NaN)"
proof -
  obtain a b c where p: "p = (a, b, c)" by (cases p)
  show ?thesis unfolding p
    by (cases a; cases b; cases c) (simp_all add: norm3_def fsub_def)
qed

text \<open>
  Claim C7, as the code has it. When the two centroids have the same position, nothing
  guards the division by the zero norm: \<open>normals_diff\<close> returns NaN, \<open>is_convex\<close>
  returns false, and the geometric component of \<open>delta_c_g_h\<close> is NaN under both
  geometric distances. No exception is raised: the three functions return these values.
\<close>

theorem equal_centroids_not_handled:
  assumes "getVector3fMap (centroid u) = getVector3fMap (centroid v)"
  shows "normals_diff (normal u) (centroid u) (normal v) (centroid v) = NaN
    \<and> \<not> is_convex (normal u) (centroid u) (normal v) (centroid v)
    \<and> fst (snd (delta_c_g_h ext s u v)) = NaN"
proof -
  have nd: "normals_diff (normal u) (centroid u) (normal v) (centroid v) = NaN"
    by (simp add: normals_diff_def Let_def assms unit_of_zero_difference dot_NaN fadd_NaN_right
        fdiv_NaN_left)
  have cv: "\<not> is_convex (normal u) (centroid u) (normal v) (centroid v)"
    by (simp add: is_convex_def Let_def assms unit_of_zero_difference dot_NaN)
  show ?thesis
    using nd cv by (simp add: delta_c_g_h_def delta_g_of_def Let_def split: GeometricDistance.splits)
qed

text \<open>Two example regions with the centroid \<open>(1, 0, 0)\<close>.\<close>

theorem equal_centroids_not_handled_witness:
  "getVector3fMap (centroid (example_region 1 0 1 1 0.2))
     = getVector3fMap (centroid (example_region 1 1 0 1 0.9))
   \<and> \<not> is_convex (normal (example_region 1 0 1 1 0.2)) (centroid (example_region 1 0 1 1 0.2))
        (normal (example_region 1 1 0 1 0.9)) (centroid (example_region 1 1 0 1 0.9))
   \<and> fst (snd (delta_c_g_h example_ext example_clustering
        (example_region 1 0 1 1 0.2) (example_region 1 1 0 1 0.9))) = NaN"
proof -
  have h: "getVector3fMap (centroid (example_region 1 0 1 1 0.2))
     = getVector3fMap (centroid (example_region 1 1 0 1 0.9))"
    by (simp add: example_region_def getVector3fMap_def)
  from equal_centroids_not_handled[OF h, of example_ext example_clustering] h show ?thesis
    by simp
qed

text \<open>
  The claim as written fails: the distance of two regions with the same centroid
  \<open>(2, 0, 0)\<close> is not a finite number.
\<close>

theorem normals_diff_equal_centroids_counterexample:
  "normals_diff (normal (example_region 2 0 1 1 0.5)) (centroid (example_region 2 0 1 1 0.5))
     (normal (example_region 2 1 0 2 0.3)) (centroid (example_region 2 1 0 2 0.3)) = NaN
   \<and> \<not> is_Fin (normals_diff
         (normal (example_region 2 0 1 1 0.5)) (centroid (example_region 2 0 1 1 0.5))
         (normal (example_region 2 1 0 2 0.3)) (centroid (example_region 2 1 0 2 0.3)))
   \<and> fst (snd (delta_c_g_h example_ext example_clustering
        (example_region 2 0 1 1 0.5) (example_region 2 1 0 2 0.3))) = NaN"
  by (simp add: delta_c_g_h_def delta_g_of_def example_clustering_def Clustering_new_def
      normals_diff_def is_convex_def example_region_def getVector3fMap_def
      getNormalVector3fMap_def norm3_def fsub_def)

section \<open>Setters\<close>

text \<open>
  Claim C10. Whatever the object held, \<open>set_merging m\<close> leaves \<open>merging_type = m\<close>,
  \<open>lambda_c = 0.5\<close>, \<open>bins_num = 500\<close> and the weights marked as not initialised: the
  result does not depend on the values of \<open>lambda_c\<close> and \<open>bins_num\<close> set before.
  (\<open>lambda_g\<close> is the one value it keeps.)
\<close>

theorem set_merging_resets:
  "merging_type (set_merging m s) = m
   \<and> lambda_c (set_merging m s) = Fin 0.5
   \<and> bins_num (set_merging m s) = 500
   \<and> \<not> init_initial_weights (set_merging m s)
   \<and> set_merging m (s\<lparr>merging_type := m0, lambda_c := l, bins_num := b, init_initial_weights := w\<rparr>)
       = set_merging m s
   \<and> lambda_g (set_merging m s) = lambda_g s"
  by (simp add: set_merging_def)

text \<open>
  Claim C9, as the code has it. \<open>set_bins_num\<close> raises a logic error, and changes
  nothing, when the merging mode is not \<open>EQUALIZATION\<close>; in that mode it raises an
  argument error, and changes nothing, when its argument is negative; every other
  argument, zero included, is stored in \<open>bins_num\<close> and the weights are marked as not
  initialised.
\<close>

theorem set_bins_num_cases:
  "set_bins_num b s =
     (if merging_type s \<noteq> EQUALIZATION then Inl (LogicError, s)
      else if sint b < 0 then Inl (InvalidArgument, s)
      else Inr (s\<lparr>bins_num := b, init_initial_weights := False\<rparr>))"
  by (simp add: set_bins_num_def word_sless_alt)

text \<open>In the equalisation mode 7 bins are accepted and \<open>- 1\<close> is refused.\<close>

theorem set_bins_num_cases_witness:
  "bins_num (projr (set_bins_num 7
       (Clustering_new LAB_CIEDE00 NORMALS_DIFF AVERAGE_FRICTION EQUALIZATION (Fin 0)))) = 7
   \<and> set_bins_num (- 1) (Clustering_new LAB_CIEDE00 NORMALS_DIFF AVERAGE_FRICTION EQUALIZATION (Fin 0))
     = Inl (InvalidArgument, Clustering_new LAB_CIEDE00 NORMALS_DIFF AVERAGE_FRICTION EQUALIZATION (Fin 0))
   \<and> set_bins_num 7 (Clustering_new LAB_CIEDE00 NORMALS_DIFF AVERAGE_FRICTION MANUAL_LAMBDA (Fin 0))
     = Inl (LogicError, Clustering_new LAB_CIEDE00 NORMALS_DIFF AVERAGE_FRICTION MANUAL_LAMBDA (Fin 0))"
  using set_bins_num_cases[of 7 "Clustering_new LAB_CIEDE00 NORMALS_DIFF AVERAGE_FRICTION EQUALIZATION (Fin 0)"]
    set_bins_num_cases[of "- 1" "Clustering_new LAB_CIEDE00 NORMALS_DIFF AVERAGE_FRICTION EQUALIZATION (Fin 0)"]
    set_bins_num_cases[of 7 "Clustering_new LAB_CIEDE00 NORMALS_DIFF AVERAGE_FRICTION MANUAL_LAMBDA (Fin 0)"]
  by (simp add: Clustering_new_def)

text \<open>The claim as written fails: a bin count of zero is not rejected.\<close>

theorem set_bins_num_zero_counterexample:
  "set_bins_num 0 (Clustering_new LAB_CIEDE00 NORMALS_DIFF AVERAGE_FRICTION EQUALIZATION (Fin 0))
     = Inr ((Clustering_new LAB_CIEDE00 NORMALS_DIFF AVERAGE_FRICTION EQUALIZATION (Fin 0))
              \<lparr>bins_num := 0, init_initial_weights := False\<rparr>)"
  by (simp add: set_bins_num_def Clustering_new_def)

section \<open>The initial graph\<close>

lemma wm_insert_minus_one:
  "wm_insert (Fin (- 1), e) (map (Pair (Fin (- 1))) xs) = map (Pair (Fin (- 1))) (xs @ [e])"
  by (induction xs) simp_all

lemma adj2weight_fold:
  "foldl (\<lambda>w_map e. wm_insert (Fin (- 1), e) w_map) (map (Pair (Fin (- 1))) xs) ys
     = map (Pair (Fin (- 1))) (xs @ ys)"
proof (induction ys arbitrary: xs)
  case Nil
  then show ?case by simp
next
  case (Cons y ys)
  have "foldl (\<lambda>w_map e. wm_insert (Fin (- 1), e) w_map) (map (Pair (Fin (- 1))) xs) (y # ys)
      = foldl (\<lambda>w_map e. wm_insert (Fin (- 1), e) w_map) (map (Pair (Fin (- 1))) (xs @ [y])) ys"
    by (simp only: foldl_Cons wm_insert_minus_one)
  also have "\<dots> = map (Pair (Fin (- 1))) ((xs @ [y]) @ ys)"
    by (rule Cons.IH)
  finally show ?case by simp
qed

lemma adj2weight_map: "adj2weight adj = map (Pair (Fin (- 1))) adj"
  using adj2weight_fold[of "[]" adj] by (simp add: adj2weight_def)

text \<open>
  Claim C2, as the code has it. After \<open>set_initialstate\<close> the weighted graph holds, each
  with the weight \<open>- 1\<close> and in the order of the input, exactly the input pairs \<open>(u, v)\<close>
  with \<open>u \<le> v\<close>: every pair with \<open>u > v\<close> is absent, so no reverse duplicate remains,
  and every self-loop \<open>(u, u)\<close> of the input is kept.
\<close>

theorem set_initialstate_graph:
  "weight_map (state (set_initialstate segm adj s))
     = map (Pair (Fin (- 1))) (filter (\<lambda>e. fst e \<le> snd e) adj)
   \<and> initial_state (set_initialstate segm adj s) = state (set_initialstate segm adj s)
   \<and> segments (state (set_initialstate segm adj s)) = segm
   \<and> ((u, v) \<in> set (map snd (weight_map (state (set_initialstate segm adj s))))
        \<longleftrightarrow> (u, v) \<in> set adj \<and> u \<le> v)"
  by (auto simp: set_initialstate_def Let_def clear_adjacency_def adj2weight_map
      not_less comp_def)

text \<open>
  The claim as written fails: of a self-loop, an edge and its reverse, the self-loop and
  the edge remain.
\<close>

theorem set_initialstate_self_loop_counterexample:
  "map snd (weight_map (state (set_initialstate example_segments [(1, 1), (1, 2), (2, 1)]
       (Clustering_new LAB_CIEDE00 NORMALS_DIFF AVERAGE_FRICTION MANUAL_LAMBDA (Fin 0)))))
     = [(1, 1), (1, 2)]"
  by (simp add: set_initialstate_def Let_def clear_adjacency_def adj2weight_def)

section \<open>Imputed friction\<close>




section \<open>Merging\<close>

lemma erased_first: "(m(u := None, v := None)) u = None"
  by simp

lemma merge_unfold:
  "merge ext (u, v) s =
     (case segments (state s) u of
        None \<Rightarrow> Inl (OutOfRange, s)
      | Some su \<Rightarrow>
     (case segments (state s) v of
        None \<Rightarrow> Inl (OutOfRange, s)
      | Some sv \<Rightarrow>
     (case weight_map (state s) of
        [] \<Rightarrow> Inl (Undefined,
                s\<lparr>state := (state s)\<lparr>segments :=
                    (segments (state s))(u := None, v := None, u \<mapsto> merged_region ext su sv)\<rparr>\<rparr>)
      | first # rest \<Rightarrow>
     (case rewrite_edges ext
             (s\<lparr>state := (state s)\<lparr>segments :=
                 (segments (state s))(u := None, v := None, u \<mapsto> merged_region ext su sv)\<rparr>\<rparr>)
             (u, v) rest [] of
        Inl e \<Rightarrow> Inl (e,
                s\<lparr>state := (state s)\<lparr>segments :=
                    (segments (state s))(u := None, v := None, u \<mapsto> merged_region ext su sv)\<rparr>\<rparr>)
      | Inr new_map \<Rightarrow>
          Inr (s\<lparr>state := \<lparr>segments =
                    (segments (state s))(u := None, v := None, u \<mapsto> merged_region ext su sv),
                  weight_map = new_map\<rparr>\<rparr>)))))"
  unfolding merge_def Let_def fst_conv snd_conv erased_first
  by (simp split: option.splits list.splits sum.splits)






lemma set_wm_insert: "set (wm_insert e w) = insert e (set w)"
  by (induction w) auto








section \<open>The guards of the clustering\<close>

lemma ebind_Inl:
  "ebind m f = Inl e \<Longrightarrow> m = Inl e \<or> (\<exists>a. m = Inr a \<and> f a = Inl e)"
  by (cases m) (simp_all add: ebind_def)

lemma float_to_short_error: "float_to_short x = Inl e \<Longrightarrow> e = Undefined"
  by (cases x) (auto split: if_splits)

lemma bin_of_error: "bin_of s d = Inl e \<Longrightarrow> e = Undefined"
  by (auto simp: bin_of_def dest!: ebind_Inl float_to_short_error)

lemma cdf_at_error: "cdf_at cdf bin = Inl e \<Longrightarrow> e = OutOfRange"
  by (auto simp: cdf_at_def split: option.splits)

lemma t_error:
  "t_c s d = Inl e \<Longrightarrow> e \<noteq> LogicError"
  "t_g s d = Inl e \<Longrightarrow> e \<noteq> LogicError"
  "t_h s d = Inl e \<Longrightarrow> e \<noteq> LogicError"
  by (auto simp: t_c_def t_g_def t_h_def split: MergingCriterion.splits
      dest!: ebind_Inl bin_of_error cdf_at_error)

lemma unify_error: "unify s ds = Inl e \<Longrightarrow> e \<noteq> LogicError"
  by (auto simp: unify_def split: prod.splits dest!: ebind_Inl dest: t_error)

lemma segments_at_error: "segments_at segm l = Inl e \<Longrightarrow> e = OutOfRange"
  by (auto simp: segments_at_def split: option.splits)

lemma delta_at_error: "delta_at ext s a b = Inl e \<Longrightarrow> e \<noteq> LogicError"
  by (auto simp: delta_at_def delta_def dest!: ebind_Inl segments_at_error dest: unify_error)

lemma add_edge_error: "add_edge ext s ids m = Inl e \<Longrightarrow> e \<noteq> LogicError"
  by (auto simp: add_edge_def split: if_splits dest!: ebind_Inl dest: delta_at_error)

lemma rewrite_edges_error: "rewrite_edges ext s ids es m = Inl e \<Longrightarrow> e \<noteq> LogicError"
proof (induction es arbitrary: m)
  case Nil
  then show ?case by simp
next
  case (Cons x es)
  have step: "e \<noteq> LogicError"
    if "ebind (add_edge ext s i m) (rewrite_edges ext s ids es) = Inl e" for i
    using ebind_Inl[OF that] add_edge_error Cons.IH by blast
  from Cons.prems step Cons.IH show ?case
    by (simp add: Let_def split: if_splits)
qed

lemma merge_error: "merge ext ids s = Inl (e, t) \<Longrightarrow> e \<noteq> LogicError"
  by (cases ids)
    (auto simp: merge_unfold split: option.splits list.splits sum.splits dest: rewrite_edges_error)

lemma merge_keeps_flags:
  "merge ext ids s = Inr s' \<Longrightarrow>
     init_initial_weights s' = init_initial_weights s \<and> set_initial_state s' = set_initial_state s
     \<and> initial_state s' = initial_state s"
  by (cases ids) (auto simp: merge_unfold split: option.splits list.splits sum.splits)

lemma cluster_loop_error: "cluster_loop ext threshold s = Inl (e, t) \<Longrightarrow> e \<noteq> LogicError"
proof (induction ext threshold s rule: cluster_loop.induct)
  case (1 ext threshold s)
  show ?case
  proof (cases "weight_map (state s)")
    case Nil
    with "1.prems" show ?thesis by simp
  next
    case (Cons nxt rest)
    show ?thesis
    proof (cases "fless (fst nxt) threshold")
      case False
      with Cons "1.prems" show ?thesis by simp
    next
      case True
      show ?thesis
      proof (cases "merge ext (snd nxt) s")
        case (Inl err)
        with Cons True "1.prems" have "merge ext (snd nxt) s = Inl (e, t)" by simp
        then show ?thesis by (rule merge_error)
      next
        case (Inr s')
        with Cons True "1.prems" have "cluster_loop ext threshold s' = Inl (e, t)" by simp
        with "1.IH"[OF Cons True Inr] show ?thesis by simp
      qed
    qed
  qed
qed

lemma cluster_loop_keeps_flags:
  "cluster_loop ext threshold s = Inr s' \<Longrightarrow>
     init_initial_weights s' = init_initial_weights s \<and> set_initial_state s' = set_initial_state s
     \<and> initial_state s' = initial_state s"
proof (induction ext threshold s rule: cluster_loop.induct)
  case (1 ext threshold s)
  show ?case
  proof (cases "weight_map (state s)")
    case Nil
    with "1.prems" show ?thesis by simp
  next
    case (Cons nxt rest)
    show ?thesis
    proof (cases "fless (fst nxt) threshold")
      case False
      with Cons "1.prems" show ?thesis by simp
    next
      case True
      show ?thesis
      proof (cases "merge ext (snd nxt) s")
        case (Inl err)
        with Cons True "1.prems" show ?thesis by simp
      next
        case (Inr s1)
        with Cons True "1.prems" have "cluster_loop ext threshold s1 = Inr s'" by simp
        from "1.IH"[OF Cons True Inr this] merge_keeps_flags[OF Inr] show ?thesis by simp
      qed
    qed
  qed
qed

lemma fill_bins_error: "fill_bins s ds bins = Inl e \<Longrightarrow> e = Undefined"
proof (induction ds arbitrary: bins)
  case Nil
  then show ?case by simp
next
  case (Cons d ds)
  from Cons.prems Cons.IH show ?case
    by (auto dest!: ebind_Inl bin_of_error split: if_splits)
qed

lemma compute_cdf_error: "compute_cdf s ds = Inl e \<Longrightarrow> e = Undefined"
  by (auto simp: compute_cdf_def split: if_splits dest!: ebind_Inl fill_bins_error)

lemma init_merging_parameters_error:
  "init_merging_parameters dc dg dh s = Inl e \<Longrightarrow> e \<noteq> LogicError"
  by (auto simp: init_merging_parameters_def Let_def split: MergingCriterion.splits
      dest!: ebind_Inl compute_cdf_error)

lemma init_merging_parameters_keeps:
  "init_merging_parameters dc dg dh s = Inr s1 \<Longrightarrow>
     set_initial_state s1 = set_initial_state s \<and> initial_state s1 = initial_state s
     \<and> state s1 = state s"
  by (auto simp: init_merging_parameters_def Let_def ebind_def
      split: MergingCriterion.splits sum.splits)

lemma collect_deltas_error: "collect_deltas ext s es = Inl e \<Longrightarrow> e \<noteq> LogicError"
proof (induction es arbitrary: e)
  case Nil
  then show ?case by simp
next
  case (Cons x es)
  from Cons.prems Cons.IH show ?case
    by (auto dest!: ebind_Inl segments_at_error)
qed

lemma reweight_error: "reweight s temp es w = Inl e \<Longrightarrow> e \<noteq> LogicError"
proof (induction es arbitrary: w)
  case Nil
  then show ?case by simp
next
  case (Cons x es)
  from Cons.prems Cons.IH show ?case
    by (auto split: option.splits dest!: ebind_Inl dest: unify_error)
qed

lemma init_weights_error: "init_weights ext s = Inl (e, t) \<Longrightarrow> e \<noteq> LogicError"
  by (auto simp: init_weights_def split: sum.splits
      dest: collect_deltas_error init_merging_parameters_error reweight_error)

lemma init_weights_flags:
  "init_weights ext s = Inr s1 \<Longrightarrow>
     init_initial_weights s1 \<and> set_initial_state s1 = set_initial_state s
     \<and> segments (initial_state s1) = segments (initial_state s) \<and> state s1 = state s"
  by (auto simp: init_weights_def split: sum.splits dest: init_merging_parameters_keeps)

text \<open>
  After \<open>init_weights\<close> every edge of the initial graph joins two regions of the table;
  a merge keeps this, as the statement of claim C1 says.
\<close>

lemma collect_deltas_closed:
  "collect_deltas ext s es = Inr ds \<Longrightarrow>
     \<forall>e \<in> set es. segments (initial_state s) (fst (snd e)) \<noteq> None
       \<and> segments (initial_state s) (snd (snd e)) \<noteq> None"
proof (induction es arbitrary: ds)
  case Nil
  then show ?case by simp
next
  case (Cons x es)
  from Cons.prems obtain ds' where "collect_deltas ext s es = Inr ds'"
    and "segments (initial_state s) (fst (snd x)) \<noteq> None"
    and "segments (initial_state s) (snd (snd x)) \<noteq> None"
    by (auto simp: ebind_def segments_at_def split: option.splits sum.splits)
  with Cons.IH show ?case by simp
qed

lemma reweight_edges:
  "reweight s temp es w = Inr w' \<Longrightarrow> snd ` set w' = snd ` set es \<union> snd ` set w"
proof (induction es arbitrary: w)
  case Nil
  then show ?case by simp
next
  case (Cons x es)
  from Cons.prems obtain d where "reweight s temp es (wm_insert (d, snd x) w) = Inr w'"
    by (auto simp: ebind_def split: option.splits sum.splits)
  from Cons.IH[OF this] show ?case by (auto simp: set_wm_insert)
qed

lemma init_weights_closed:
  assumes "init_weights ext s = Inr s1"
  shows "edges_closed (initial_state s1)"
proof -
  from assms obtain ds s0 w' where
    ds: "collect_deltas ext s (weight_map (initial_state s)) = Inr ds"
    and s0: "initial_state s0 = initial_state s"
    and w': "reweight s0 (map_of ds) (weight_map (initial_state s0)) [] = Inr w'"
    and s1: "s1 = s0\<lparr>initial_state := (initial_state s0)\<lparr>weight_map := w'\<rparr>,
                  init_initial_weights := True\<rparr>"
    by (auto simp: init_weights_def split: sum.splits dest: init_merging_parameters_keeps)
  from reweight_edges[OF w'] have "\<forall>e \<in> set w'. snd e \<in> snd ` set (weight_map (initial_state s))"
    by (auto simp: s0)
  with collect_deltas_closed[OF ds] show ?thesis
    by (fastforce simp: s1 s0 edges_closed_def list_all_iff)
qed

subsection \<open>A well-formed graph is merged without failure\<close>

lemma unify_lambda:
  "merging_type s \<noteq> EQUALIZATION \<Longrightarrow> \<exists>w. unify s ds = Inr w"
  by (cases "merging_type s"; cases ds)
    (simp_all add: unify_def t_c_def t_g_def t_h_def ebind_def)

lemma delta_at_lambda:
  assumes "merging_type s \<noteq> EQUALIZATION"
    and "segments (state s) a \<noteq> None" and "segments (state s) b \<noteq> None"
  shows "\<exists>w. delta_at ext s a b = Inr w"
proof -
  from assms(2,3) obtain x y where xy: "segments (state s) a = Some x" "segments (state s) b = Some y"
    by blast
  from unify_lambda[OF assms(1), of "delta_c_g_h ext s x y"] obtain w where
    "unify s (delta_c_g_h ext s x y) = Inr w" by blast
  with xy show ?thesis
    by (simp add: delta_at_def segments_at_def ebind_def delta_def)
qed

lemma distinct_wm_insert:
  "distinct (map snd (wm_insert e w)) \<longleftrightarrow> snd e \<notin> snd ` set w \<and> distinct (map snd w)"
  by (induction w) (auto simp: set_wm_insert)

lemma contains_iff: "contains m a b \<longleftrightarrow> (a, b) \<in> snd ` set m"
  by (force simp: contains_def list_ex_iff)

lemma add_edge_total:
  assumes lam: "merging_type t \<noteq> EQUALIZATION"
    and inv: "rewriting t u v (x # es) m"
    and pres: "segments (state t) a \<noteq> None" "segments (state t) b \<noteq> None"
    and can: "a < b" and has: "a = u \<or> b = u"
  shows "\<exists>m1. add_edge ext t (a, b) m = Inr m1 \<and> rewriting t u v es m1"
proof (cases "contains m a b")
  case True
  then have "add_edge ext t (a, b) m = Inr m" by (simp add: add_edge_def)
  moreover from inv have "rewriting t u v es m"
    by (auto simp: rewriting_def)
  ultimately show ?thesis by blast
next
  case False
  from delta_at_lambda[OF lam pres] obtain w where w: "delta_at ext t a b = Inr w" by blast
  with False have a: "add_edge ext t (a, b) m = Inr (wm_insert (w, (a, b)) m)"
    by (simp add: add_edge_def ebind_def)
  from False have nin: "(a, b) \<notin> snd ` set m" by (simp add: contains_iff)
  from inv nin pres can has have "rewriting t u v es (wm_insert (w, (a, b)) m)"
    unfolding rewriting_def by (auto simp: set_wm_insert distinct_wm_insert)
  with a show ?thesis by blast
qed

lemma rewrite_edges_total:
  assumes "merging_type t \<noteq> EQUALIZATION" and "u < v"
    and "segments (state t) u \<noteq> None"
    and "rewriting t u v es m"
  shows "\<exists>m'. rewrite_edges ext t (u, v) es m = Inr m' \<and> rewriting t u v [] m'"
  using assms(4)
proof (induction es arbitrary: m)
  case Nil
  then show ?case by simp
next
  case (Cons x es)
  obtain w a b where x: "x = (w, (a, b))" by (cases x) auto
  from Cons.prems have xa: "a < b" "(a, b) \<noteq> (u, v)"
    "a \<noteq> v \<Longrightarrow> segments (state t) a \<noteq> None" "b \<noteq> v \<Longrightarrow> segments (state t) b \<noteq> None"
    by (auto simp: rewriting_def x)
  have step: ?case
    if "rewrite_edges ext t (u, v) (x # es) m
          = ebind (add_edge ext t (c, d) m) (rewrite_edges ext t (u, v) es)"
      and "segments (state t) c \<noteq> None" "segments (state t) d \<noteq> None" "c < d" "c = u \<or> d = u"
    for c d
  proof -
    from add_edge_total[OF assms(1) Cons.prems that(2-5)] obtain m1 where
      a: "add_edge ext t (c, d) m = Inr m1" and r: "rewriting t u v es m1" by blast
    from Cons.IH[OF r] that(1) a show ?thesis by (simp add: ebind_def)
  qed
  consider (one) "a = u \<or> b = u" | (two) "a \<noteq> u" "b \<noteq> u" "a = v"
    | (three) "a \<noteq> u" "b \<noteq> u" "a \<noteq> v" "b = v" | (four) "a \<noteq> u" "b \<noteq> u" "a \<noteq> v" "b \<noteq> v"
    by blast
  then show ?case
  proof cases
    case one
    have eq: "rewrite_edges ext t (u, v) (x # es) m
          = ebind (add_edge ext t (a, b) m) (rewrite_edges ext t (u, v) es)"
      using one by (simp add: x Let_def)
    have pa: "segments (state t) a \<noteq> None" and pb: "segments (state t) b \<noteq> None"
      using one xa assms(2,3) by auto
    from step[OF eq pa pb xa(1) one] show ?thesis .
  next
    case two
    have eq: "rewrite_edges ext t (u, v) (x # es) m
          = ebind (add_edge ext t (u, b) m) (rewrite_edges ext t (u, v) es)"
      using two by (simp add: x Let_def)
    have pb: "segments (state t) b \<noteq> None" and ub: "u < b"
      using two xa assms(2) by auto
    have "u = u \<or> b = u" by simp
    from step[OF eq assms(3) pb ub this] show ?thesis .
  next
    case three
    have pa: "segments (state t) a \<noteq> None" using three xa by simp
    show ?thesis
    proof (cases "a < u")
      case True
      have eq: "rewrite_edges ext t (u, v) (x # es) m
          = ebind (add_edge ext t (a, u) m) (rewrite_edges ext t (u, v) es)"
        using three True by (simp add: x Let_def)
      have "a = u \<or> u = u" by simp
      from step[OF eq pa assms(3) True this] show ?thesis .
    next
      case False
      have eq: "rewrite_edges ext t (u, v) (x # es) m
          = ebind (add_edge ext t (u, a) m) (rewrite_edges ext t (u, v) es)"
        using three False by (simp add: x Let_def)
      from False three have ua: "u < a" by simp
      have "u = u \<or> a = u" by simp
      from step[OF eq assms(3) pa ua this] show ?thesis .
    qed
  next
    case four
    have eq: "rewrite_edges ext t (u, v) (x # es) m
          = rewrite_edges ext t (u, v) es (wm_insert x m)"
      using four by (simp add: x Let_def)
    from Cons.prems four have "snd x \<notin> snd ` set m"
      by (force simp: rewriting_def x)
    with Cons.prems four xa have "rewriting t u v es (wm_insert x m)"
      unfolding rewriting_def by (auto simp: set_wm_insert distinct_wm_insert x)
    from Cons.IH[OF this] eq show ?thesis by simp
  qed
qed


lemma merge_total:
  assumes lam: "merging_type s \<noteq> EQUALIZATION"
    and wf: "well_formed (state s)"
    and wm: "weight_map (state s) = (w, (u, v)) # rest"
  shows "\<exists>s'. merge ext (u, v) s = Inr s' \<and> well_formed (state s')
      \<and> merging_type s' = merging_type s"
proof -
  from wf wm have uv: "u < v"
    and ex: "segments (state s) u \<noteq> None" "segments (state s) v \<noteq> None"
    by (auto simp: well_formed_def edges_closed_def)
  then obtain su sv where su: "segments (state s) u = Some su"
    and sv: "segments (state s) v = Some sv" by blast
  let ?segs = "(segments (state s))(u := None, v := None, u \<mapsto> merged_region ext su sv)"
  let ?t = "s\<lparr>state := (state s)\<lparr>segments := ?segs\<rparr>\<rparr>"
  have lam_t: "merging_type ?t \<noteq> EQUALIZATION" using lam by simp
  have pu: "segments (state ?t) u \<noteq> None" by simp
  have keep: "segments (state ?t) x \<noteq> None" if "segments (state s) x \<noteq> None" "x \<noteq> v" for x
    using that by simp
  from wf wm have nuv: "(u, v) \<notin> snd ` set rest" and drest: "distinct (map snd rest)"
    by (simp_all add: well_formed_def)
  from nuv have nuv': "\<forall>e \<in> set rest. snd e \<noteq> (u, v)" by force
  from wf wm have "\<forall>e \<in> set rest. fst (snd e) < snd (snd e)
      \<and> segments (state s) (fst (snd e)) \<noteq> None \<and> segments (state s) (snd (snd e)) \<noteq> None"
    by (simp add: well_formed_def edges_closed_def list_all_iff)
  with nuv' have rest: "\<forall>e \<in> set rest. fst (snd e) < snd (snd e) \<and> snd e \<noteq> (u, v)
      \<and> segments (state s) (fst (snd e)) \<noteq> None \<and> segments (state s) (snd (snd e)) \<noteq> None"
    by blast
  have "rewriting ?t u v rest []"
    unfolding rewriting_def using rest drest keep by simp
  from rewrite_edges_total[OF lam_t uv pu this, of ext] obtain m' where
    r: "rewrite_edges ext ?t (u, v) rest [] = Inr m'" and inv: "rewriting ?t u v [] m'"
    by blast
  let ?s' = "s\<lparr>state := \<lparr>segments = ?segs, weight_map = m'\<rparr>\<rparr>"
  have "merge ext (u, v) s = Inr ?s'"
    unfolding merge_unfold by (simp only: su sv wm r option.case list.case sum.case)
  moreover from inv have "well_formed (state ?s')"
    by (simp add: rewriting_def well_formed_def edges_closed_def list_all_iff)
  ultimately show ?thesis by simp
qed

lemma cluster_loop_total:
  "merging_type s \<noteq> EQUALIZATION \<Longrightarrow> well_formed (state s)
     \<Longrightarrow> \<exists>s'. cluster_loop ext threshold s = Inr s'"
proof (induction ext threshold s rule: cluster_loop.induct)
  case (1 ext threshold s)
  show ?case
  proof (cases "weight_map (state s)")
    case Nil
    then show ?thesis by simp
  next
    case (Cons nxt rest)
    show ?thesis
    proof (cases "fless (fst nxt) threshold")
      case False
      with Cons show ?thesis by simp
    next
      case True
      obtain w u v where nxt: "nxt = (w, (u, v))" by (cases nxt) auto
      from merge_total[OF "1.prems" Cons[unfolded nxt], of ext] obtain s1 where
        m: "merge ext (u, v) s = Inr s1" and wf: "well_formed (state s1)"
        and mt: "merging_type s1 = merging_type s" by blast
      from m have m': "merge ext (snd nxt) s = Inr s1" by (simp add: nxt)
      from "1.IH"[OF Cons True m'] mt "1.prems"(1) wf obtain s' where
        "cluster_loop ext threshold s1 = Inr s'" by auto
      with Cons True m' show ?thesis by simp
    qed
  qed
qed

lemma collect_deltas_total:
  assumes "\<forall>e \<in> set es. segments (initial_state s) (fst (snd e)) \<noteq> None
      \<and> segments (initial_state s) (snd (snd e)) \<noteq> None"
  shows "\<exists>ds. collect_deltas ext s es = Inr ds \<and> map fst ds = map snd es"
  using assms
proof (induction es)
  case Nil
  then show ?case by simp
next
  case (Cons x es)
  then obtain ds where ds: "collect_deltas ext s es = Inr ds" "map fst ds = map snd es"
    by auto
  from Cons.prems obtain a b where
    "segments (initial_state s) (fst (snd x)) = Some a"
    "segments (initial_state s) (snd (snd x)) = Some b" by auto
  with ds show ?case by (simp add: segments_at_def ebind_def)
qed

lemma reweight_total:
  assumes "merging_type s \<noteq> EQUALIZATION"
    and "\<forall>e \<in> set es. temp (snd e) \<noteq> None"
  shows "\<exists>w'. reweight s temp es w = Inr w' \<and> snd ` set w' = snd ` set es \<union> snd ` set w
      \<and> (distinct (map snd es) \<and> distinct (map snd w) \<and> snd ` set es \<inter> snd ` set w = {}
           \<longrightarrow> distinct (map snd w'))"
  using assms(2)
proof (induction es arbitrary: w)
  case Nil
  then show ?case by simp
next
  case (Cons x es)
  from Cons.prems obtain ds where ds: "temp (snd x) = Some ds" by auto
  from unify_lambda[OF assms(1), of ds] obtain d where d: "unify s ds = Inr d" by blast
  from Cons.prems have "\<forall>e \<in> set es. temp (snd e) \<noteq> None" by simp
  from Cons.IH[OF this, of "wm_insert (d, snd x) w"] obtain w' where
    w': "reweight s temp es (wm_insert (d, snd x) w) = Inr w'"
    "snd ` set w' = snd ` set es \<union> snd ` set (wm_insert (d, snd x) w)"
    "distinct (map snd es) \<and> distinct (map snd (wm_insert (d, snd x) w))
       \<and> snd ` set es \<inter> snd ` set (wm_insert (d, snd x) w) = {} \<longrightarrow> distinct (map snd w')"
    by blast
  have "reweight s temp (x # es) w = Inr w'"
    by (simp add: ds d ebind_def w'(1))
  moreover have "snd ` set w' = snd ` set (x # es) \<union> snd ` set w"
    using w'(2) by (auto simp: set_wm_insert)
  moreover have "distinct (map snd w')"
    if "distinct (map snd (x # es))" "distinct (map snd w)"
      "snd ` set (x # es) \<inter> snd ` set w = {}"
    using w'(3) that by (auto simp: set_wm_insert distinct_wm_insert)
  ultimately show ?case by blast
qed

lemma init_weights_total:
  assumes lam: "merging_type s \<noteq> EQUALIZATION" and wf: "well_formed (initial_state s)"
  shows "\<exists>s1. init_weights ext s = Inr s1 \<and> well_formed (initial_state s1)
      \<and> merging_type s1 \<noteq> EQUALIZATION"
proof -
  from wf have closed: "\<forall>e \<in> set (weight_map (initial_state s)).
      segments (initial_state s) (fst (snd e)) \<noteq> None
      \<and> segments (initial_state s) (snd (snd e)) \<noteq> None"
    by (simp add: well_formed_def edges_closed_def list_all_iff)
  from collect_deltas_total[OF closed, of ext] obtain ds where
    ds: "collect_deltas ext s (weight_map (initial_state s)) = Inr ds"
    and keys: "map fst ds = map snd (weight_map (initial_state s))" by blast
  obtain s1 where s1: "init_merging_parameters
             (foldl (\<lambda>acc d. ms_insert d acc) [] (map (\<lambda>e. fst (snd e)) ds))
             (foldl (\<lambda>acc d. ms_insert d acc) [] (map (\<lambda>e. fst (snd (snd e))) ds))
             (foldl (\<lambda>acc d. ms_insert d acc) [] (map (\<lambda>e. snd (snd (snd e))) ds)) s = Inr s1"
    and lam1: "merging_type s1 \<noteq> EQUALIZATION" and is1: "initial_state s1 = initial_state s"
    using lam by (cases "merging_type s") (auto simp: init_merging_parameters_def Let_def)
  have "\<forall>e \<in> set (weight_map (initial_state s)). map_of ds (snd e) \<noteq> None"
  proof
    fix e assume "e \<in> set (weight_map (initial_state s))"
    then have "snd e \<in> set (map fst ds)" unfolding keys by simp
    then show "map_of ds (snd e) \<noteq> None" by (simp add: map_of_eq_None_iff)
  qed
  from reweight_total[OF lam1 this, of "[]"] obtain w' where
    w': "reweight s1 (map_of ds) (weight_map (initial_state s)) [] = Inr w'"
    "snd ` set w' = snd ` set (weight_map (initial_state s))"
    "distinct (map snd (weight_map (initial_state s))) \<longrightarrow> distinct (map snd w')"
    by auto
  let ?s2 = "s1\<lparr>initial_state := (initial_state s1)\<lparr>weight_map := w'\<rparr>,
                  init_initial_weights := True\<rparr>"
  have "init_weights ext s = Inr ?s2"
    by (simp add: init_weights_def ds s1 is1 w'(1))
  moreover have "well_formed (initial_state ?s2)"
  proof -
    have "\<forall>e \<in> set w'. snd e \<in> snd ` set (weight_map (initial_state s))"
      using w'(2) by blast
    with wf w'(3) show ?thesis
      by (fastforce simp: well_formed_def edges_closed_def list_all_iff is1)
  qed
  ultimately show ?thesis using lam1 by auto
qed

lemma cluster_total:
  assumes "set_initial_state s" and "merging_type s \<noteq> EQUALIZATION"
    and "well_formed (initial_state s)"
  shows "\<exists>s'. cluster ext threshold s = Inr s'"
proof (cases "init_initial_weights s")
  case True
  from cluster_loop_total[of "s\<lparr>state := initial_state s\<rparr>" ext threshold] assms
  show ?thesis by (simp add: cluster_def cluster_from_def True)
next
  case False
  from init_weights_total[OF assms(2,3), of ext] obtain s1 where
    s1: "init_weights ext s = Inr s1" "well_formed (initial_state s1)"
    "merging_type s1 \<noteq> EQUALIZATION" by blast
  from cluster_loop_total[of "s1\<lparr>state := initial_state s1\<rparr>" ext threshold] s1 assms(1)
  show ?thesis by (simp add: cluster_def cluster_from_def False)
qed

text \<open>
  Claim C8. Called before an initial state is set, \<open>cluster\<close> throws a logic error and
  leaves the object as it was. Called with an initial state and weights that are not
  initialised, it is not rejected: the call is what \<open>init_weights\<close> followed by the merge
  loop from the initial state is, the same as a call of \<open>init_weights\<close> followed by a
  call of \<open>cluster\<close>; it never ends in a logic error, and when it returns the weights are
  marked as initialised. When moreover the initial graph is well formed and the merging
  mode is one of the two with weights \<open>lambda\<close>, the call returns.
\<close>

theorem cluster_guards:
  "(\<not> set_initial_state s \<longrightarrow> cluster ext threshold s = Inl (LogicError, s))
   \<and> (set_initial_state s \<and> \<not> init_initial_weights s \<longrightarrow>
        cluster ext threshold s =
          (case init_weights ext s of
             Inl e \<Rightarrow> Inl e
           | Inr s1 \<Rightarrow> cluster_from ext (initial_state s1) threshold s1)
      \<and> cluster ext threshold s =
          (case init_weights ext s of
             Inl e \<Rightarrow> Inl e
           | Inr s1 \<Rightarrow> cluster ext threshold s1)
      \<and> cluster ext threshold s \<noteq> Inl (LogicError, t)
      \<and> (cluster ext threshold s = Inr s' \<longrightarrow> init_initial_weights s')
      \<and> (merging_type s \<noteq> EQUALIZATION \<and> well_formed (initial_state s) \<longrightarrow>
           (\<exists>r. cluster ext threshold s = Inr r)))"
proof -
  have a: "cluster ext threshold s = Inl (LogicError, s)" if "\<not> set_initial_state s"
    using that by (simp add: cluster_def)
  have b: "cluster ext threshold s =
          (case init_weights ext s of
             Inl e \<Rightarrow> Inl e
           | Inr s1 \<Rightarrow> cluster_from ext (initial_state s1) threshold s1)"
    if "set_initial_state s" "\<not> init_initial_weights s"
    using that by (simp add: cluster_def)
  have c: "cluster ext threshold s =
          (case init_weights ext s of
             Inl e \<Rightarrow> Inl e
           | Inr s1 \<Rightarrow> cluster ext threshold s1)"
    if "set_initial_state s" "\<not> init_initial_weights s"
    using that init_weights_flags[of ext s]
    by (auto simp: cluster_def split: sum.splits)
  have d: "cluster ext threshold s \<noteq> Inl (LogicError, t)"
    if "set_initial_state s" "\<not> init_initial_weights s"
  proof
    assume f: "cluster ext threshold s = Inl (LogicError, t)"
    show False
    proof (cases "init_weights ext s")
      case (Inl err)
      with f b[OF that] have "init_weights ext s = Inl (LogicError, t)" by simp
      from init_weights_error[OF this] show False by simp
    next
      case (Inr s1)
      with f b[OF that] have "cluster_loop ext threshold (s1\<lparr>state := initial_state s1\<rparr>)
          = Inl (LogicError, t)"
        by (simp add: cluster_from_def)
      from cluster_loop_error[OF this] show False by simp
    qed
  qed
  have e: "init_initial_weights s'"
    if "set_initial_state s" "\<not> init_initial_weights s" "cluster ext threshold s = Inr s'"
  proof -
    from that b[OF that(1,2)] obtain s1 where s1: "init_weights ext s = Inr s1"
      and l: "cluster_loop ext threshold (s1\<lparr>state := initial_state s1\<rparr>) = Inr s'"
      by (auto simp: cluster_from_def split: sum.splits)
    from cluster_loop_keeps_flags[OF l] init_weights_flags[OF s1] show ?thesis by simp
  qed
  have f: "\<exists>r. cluster ext threshold s = Inr r"
    if "set_initial_state s" "merging_type s \<noteq> EQUALIZATION" "well_formed (initial_state s)"
    using that by (rule cluster_total)
  from a b c d e f show ?thesis by blast
qed


lemma cluster_loop_done:
  "weight_map (state s) = [] \<Longrightarrow> cluster_loop ext threshold s = Inr s"
  by simp

lemma cluster_loop_step:
  "weight_map (state s) = nxt # rest \<Longrightarrow> fless (fst nxt) threshold
    \<Longrightarrow> merge ext (snd nxt) s = Inr s' \<Longrightarrow> cluster_loop ext threshold s = cluster_loop ext threshold s'"
  by simp

lemma example_pair_fields:
  "set_initial_state example_pair" "\<not> init_initial_weights example_pair"
  "initial_state example_pair
     = \<lparr>segments = [1 \<mapsto> region_one, 2 \<mapsto> region_four], weight_map = [(Fin (- 1), (1, 2))]\<rparr>"
  "state example_pair = initial_state example_pair"
  "delta_c_type example_pair = LAB_CIEDE00"
  "delta_g_type example_pair = CONVEX_NORMALS_DIFF"
  "delta_h_type example_pair = AVERAGE_FRICTION"
  "merging_type example_pair = MANUAL_LAMBDA"
  "lambda_c example_pair = Fin 0.5" "lambda_g example_pair = Fin 0.25"
  by (simp_all add: example_pair_def set_initialstate_def Let_def clear_adjacency_def
      adj2weight_def Clustering_new_def)

lemma example_pair_deltas:
  "delta_c_g_h example_ext example_pair region_one region_four
     = (Fin 0, Fin (1 / 3), Fin (7 / 10))"
  by (simp add: delta_c_g_h_def delta_c_of_def delta_g_of_def delta_h_of_def example_pair_fields
      normals_diff_def is_convex_def example_ext_def example_region_def
      region_one_def region_four_def
      getVector3fMap_def getNormalVector3fMap_def norm3_def fsub_def)

lemma example_pair_init:
  "init_weights example_ext example_pair
     = Inr (example_pair\<lparr>initial_state :=
              \<lparr>segments = [1 \<mapsto> region_one, 2 \<mapsto> region_four],
               weight_map = [(Fin (31 / 120), (1, 2))]\<rparr>,
            init_initial_weights := True\<rparr>)"
  by (simp add: init_weights_def example_pair_fields segments_at_def ebind_def
      example_pair_deltas init_merging_parameters_def unify_def t_c_def t_g_def t_h_def fsub_def)


lemma example_pair_cluster:
  "cluster example_ext (Fin (1 / 2)) example_pair
     = Inr (example_pair\<lparr>initial_state :=
              \<lparr>segments = [1 \<mapsto> region_one, 2 \<mapsto> region_four],
               weight_map = [(Fin (31 / 120), (1, 2))]\<rparr>,
            init_initial_weights := True,
            state :=
              \<lparr>segments = [1 \<mapsto> region_one, 2 \<mapsto> region_four]
                   (1 := None, 2 := None, 1 \<mapsto> merged_region example_ext region_one region_four),
               weight_map = []\<rparr>\<rparr>)"
proof -
  let ?s1 = "example_pair\<lparr>initial_state :=
              \<lparr>segments = [1 \<mapsto> region_one, 2 \<mapsto> region_four],
               weight_map = [(Fin (31 / 120), (1, 2))]\<rparr>,
            init_initial_weights := True\<rparr>"
  let ?s2 = "?s1\<lparr>state := initial_state ?s1\<rparr>"
  let ?s3 = "?s2\<lparr>state := \<lparr>segments = (segments (state ?s2))
                   (1 := None, 2 := None, 1 \<mapsto> merged_region example_ext region_one region_four),
               weight_map = []\<rparr>\<rparr>"
  have c: "cluster example_ext (Fin (1 / 2)) example_pair = cluster_loop example_ext (Fin (1 / 2)) ?s2"
    by (simp add: cluster_def example_pair_fields(1,2) example_pair_init cluster_from_def)
  have wm: "weight_map (state ?s2) = (Fin (31 / 120), (1, 2)) # []"
    by simp
  have lt: "fless (fst (Fin (31 / 120), (1 :: uint32, 2 :: uint32))) (Fin (1 / 2))"
    by simp
  have mg: "merge example_ext (snd (Fin (31 / 120), (1, 2))) ?s2 = Inr ?s3"
    unfolding snd_conv merge_unfold by simp
  have "cluster_loop example_ext (Fin (1 / 2)) ?s2 = cluster_loop example_ext (Fin (1 / 2)) ?s3"
    using wm lt mg by (rule cluster_loop_step)
  also have "\<dots> = Inr ?s3"
    by (rule cluster_loop_done) simp
  finally show ?thesis
    unfolding c by simp
qed

text \<open>
  A new object refuses to cluster. The example object with an initial state and no
  weights returns: the edge of the initial state has received its weight, that edge was
  merged, and the weights are marked as initialised.
\<close>

theorem cluster_guards_witness:
  "cluster example_ext (Fin (1 / 2))
     (Clustering_new LAB_CIEDE00 CONVEX_NORMALS_DIFF AVERAGE_FRICTION MANUAL_LAMBDA (Fin 0.25))
     = Inl (LogicError,
         Clustering_new LAB_CIEDE00 CONVEX_NORMALS_DIFF AVERAGE_FRICTION MANUAL_LAMBDA (Fin 0.25))
   \<and> set_initial_state example_pair \<and> \<not> init_initial_weights example_pair
   \<and> merging_type example_pair \<noteq> EQUALIZATION \<and> well_formed (initial_state example_pair)
   \<and> isl (init_weights example_ext example_pair) = False
   \<and> cluster example_ext (Fin (1 / 2)) example_pair
       = cluster example_ext (Fin (1 / 2)) (projr (init_weights example_ext example_pair))
   \<and> weight_map (initial_state (projr (cluster example_ext (Fin (1 / 2)) example_pair)))
       = [(Fin (31 / 120), (1, 2))]
   \<and> weight_map (state (projr (cluster example_ext (Fin (1 / 2)) example_pair))) = []
   \<and> init_initial_weights (projr (cluster example_ext (Fin (1 / 2)) example_pair))"
proof -
  let ?new = "Clustering_new LAB_CIEDE00 CONVEX_NORMALS_DIFF AVERAGE_FRICTION MANUAL_LAMBDA (Fin 0.25)"
  have n: "\<not> set_initial_state ?new"
    by (simp add: Clustering_new_def)
  have g1: "cluster example_ext (Fin (1 / 2)) ?new = Inl (LogicError, ?new)"
    using cluster_guards[of ?new example_ext "Fin (1 / 2)"] n by blast
  have g2: "cluster example_ext (Fin (1 / 2)) example_pair =
      (case init_weights example_ext example_pair of
         Inl e \<Rightarrow> Inl e
       | Inr s1 \<Rightarrow> cluster example_ext (Fin (1 / 2)) s1)"
    using cluster_guards[of example_pair example_ext "Fin (1 / 2)"] example_pair_fields(1,2)
    by blast
  have i: "isl (init_weights example_ext example_pair) = False"
    by (simp add: example_pair_init)
  have g3: "cluster example_ext (Fin (1 / 2)) example_pair
      = cluster example_ext (Fin (1 / 2)) (projr (init_weights example_ext example_pair))"
    using g2 i by (simp only: sum.case_eq_if if_False)
  have w1: "weight_map (initial_state (projr (cluster example_ext (Fin (1 / 2)) example_pair)))
       = [(Fin (31 / 120), (1, 2))]"
    and w2: "weight_map (state (projr (cluster example_ext (Fin (1 / 2)) example_pair))) = []"
    and w3: "init_initial_weights (projr (cluster example_ext (Fin (1 / 2)) example_pair))"
    by (simp_all add: example_pair_cluster)
  have m: "merging_type example_pair \<noteq> EQUALIZATION"
    by (simp add: example_pair_fields)
  have wf: "well_formed (initial_state example_pair)"
    by (simp add: example_pair_fields well_formed_def edges_closed_def)
  show ?thesis
    by (intro conjI g1 example_pair_fields(1,2) m wf i g3 w1 w2 w3)
qed

lemma cluster_loop_fail:
  "weight_map (state s) = nxt # rest \<Longrightarrow> fless (fst nxt) threshold
    \<Longrightarrow> merge ext (snd nxt) s = Inl e \<Longrightarrow> cluster_loop ext threshold s = Inl e"
  by simp

lemma example_loop_fields:
  "set_initial_state example_loop" "\<not> init_initial_weights example_loop"
  "initial_state example_loop
     = \<lparr>segments = [1 \<mapsto> region_one, 2 \<mapsto> region_four],
        weight_map = [(Fin (- 1), (1, 2)), (Fin (- 1), (2, 2))]\<rparr>"
  "state example_loop = initial_state example_loop"
  "delta_c_type example_loop = LAB_CIEDE00"
  "delta_g_type example_loop = CONVEX_NORMALS_DIFF"
  "delta_h_type example_loop = AVERAGE_FRICTION"
  "merging_type example_loop = MANUAL_LAMBDA"
  "lambda_c example_loop = Fin 0.5" "lambda_g example_loop = Fin 0.25"
  by (simp_all add: example_loop_def set_initialstate_def Let_def clear_adjacency_def
      adj2weight_def Clustering_new_def)

lemma example_loop_deltas:
  "delta_c_g_h example_ext example_loop region_one region_four
     = (Fin 0, Fin (1 / 3), Fin (7 / 10))"
  "delta_c_g_h example_ext example_loop region_four region_four = (Fin 0, NaN, Fin 0)"
  by (simp_all add: delta_c_g_h_def delta_c_of_def delta_g_of_def delta_h_of_def example_loop_fields
      normals_diff_def is_convex_def example_ext_def example_region_def
      region_one_def region_four_def
      getVector3fMap_def getNormalVector3fMap_def norm3_def fsub_def)

lemma example_loop_init:
  "init_weights example_ext example_loop
     = Inr (example_loop\<lparr>initial_state := example_loop_state, init_initial_weights := True\<rparr>)"
  by (simp add: init_weights_def example_loop_fields segments_at_def ebind_def
      example_loop_deltas init_merging_parameters_def unify_def t_c_def t_g_def t_h_def fsub_def
      example_loop_state_def)

lemma example_loop_merge:
  "merge example_ext (1, 2) example_loop_weighted
     = Inl (OutOfRange,
         example_loop_weighted\<lparr>state := (state example_loop_weighted)\<lparr>segments :=
           (segments (state example_loop_weighted))
             (1 := None, 2 := None, 1 \<mapsto> merged_region example_ext region_one region_four)\<rparr>\<rparr>)"
proof -
  have seg: "segments (state example_loop_weighted) 1 = Some region_one"
    "segments (state example_loop_weighted) 2 = Some region_four"
    by (simp_all add: example_loop_weighted_def example_loop_state_def)
  have wm: "weight_map (state example_loop_weighted)
      = [(Fin (31 / 120), (1, 2)), (NaN, (2, 2))]"
    by (simp add: example_loop_weighted_def example_loop_state_def)
  show ?thesis
    unfolding merge_unfold
    by (simp add: seg wm delta_at_def segments_at_def ebind_def add_edge_def contains_def)
qed

lemma example_loop_cluster:
  "cluster example_ext (Fin (1 / 2)) example_loop
     = Inl (OutOfRange,
         example_loop_weighted\<lparr>state := (state example_loop_weighted)\<lparr>segments :=
           (segments (state example_loop_weighted))
             (1 := None, 2 := None, 1 \<mapsto> merged_region example_ext region_one region_four)\<rparr>\<rparr>)"
proof -
  have c: "cluster example_ext (Fin (1 / 2)) example_loop
      = cluster_loop example_ext (Fin (1 / 2)) example_loop_weighted"
    by (simp add: cluster_def example_loop_fields(1,2) example_loop_init cluster_from_def
        example_loop_weighted_def)
  have wm: "weight_map (state example_loop_weighted)
      = (Fin (31 / 120), (1, 2)) # [(NaN, (2, 2))]"
    by (simp add: example_loop_weighted_def example_loop_state_def)
  have lt: "fless (fst (Fin (31 / 120), (1 :: uint32, 2 :: uint32))) (Fin (1 / 2))"
    by simp
  have mg: "merge example_ext (snd (Fin (31 / 120), (1, 2))) example_loop_weighted
      = Inl (OutOfRange,
         example_loop_weighted\<lparr>state := (state example_loop_weighted)\<lparr>segments :=
           (segments (state example_loop_weighted))
             (1 := None, 2 := None, 1 \<mapsto> merged_region example_ext region_one region_four)\<rparr>\<rparr>)"
    unfolding snd_conv by (rule example_loop_merge)
  show ?thesis
    unfolding c using wm lt mg by (rule cluster_loop_fail)
qed

text \<open>
  An object with an initial state and no weights for which the call fails: the
  adjacency has the edge \<open>(1, 2)\<close> and a self-loop on 2, which \<open>set_initialstate\<close> keeps.
  \<open>init_weights\<close> returns, with the weight NaN for the self-loop; the first turn of the
  loop merges 1 and 2, rewrites the self-loop as \<open>(1, 2)\<close> and looks up the region 2,
  which it has just erased: the call ends with \<open>out_of_range\<close>.
\<close>

theorem cluster_self_loop_counterexample:
  "set_initial_state example_loop \<and> \<not> init_initial_weights example_loop
   \<and> map snd (weight_map (initial_state example_loop)) = [(1, 2), (2, 2)]
   \<and> init_weights example_ext example_loop
       = Inr (example_loop\<lparr>initial_state := example_loop_state, init_initial_weights := True\<rparr>)
   \<and> isl (cluster example_ext (Fin (1 / 2)) example_loop)
   \<and> fst (projl (cluster example_ext (Fin (1 / 2)) example_loop)) = OutOfRange"
  by (simp add: example_loop_fields example_loop_init example_loop_cluster)

section \<open>Conservation in a merge\<close>





end
